theory Spec2Isabelle
  imports Main "HOL-Library.Word"
begin

section \<open>Strings, arrays and maps of the TypeScript sources\<close>

text \<open>
  A JavaScript string is a sequence of UTF-16 code units: \<open>length\<close>, \<open>substring\<close>,
  \<open>split\<close> and the regular expressions of the sources (none has the \<open>u\<close> flag) all count
  code units.  ASCII literals are written through \<open>js\<close>; the Japanese literals of the
  sources are spelled out as code units.
\<close>

type_synonym jschar = "16 word"
type_synonym jsstring = "jschar list"

definition js :: "string \<Rightarrow> jsstring" where
  "js s = map (\<lambda>c. of_nat (of_char c)) s"

definition nl :: jschar where
  "nl = 0x0A"

text \<open>\<open>s.split(sep)\<close> for a one-character separator: always at least one piece.\<close>

fun split_on :: "'a \<Rightarrow> 'a list \<Rightarrow> 'a list list" where
  "split_on s [] = [[]]"
| "split_on s (c # cs) =
     (if c = s then [] # split_on s cs
      else (case split_on s cs of [] \<Rightarrow> [[c]] | l # ls \<Rightarrow> (c # l) # ls))"

text \<open>\<open>xs.join(sep)\<close>.\<close>

fun join :: "'a list \<Rightarrow> 'a list list \<Rightarrow> 'a list" where
  "join sep [] = []"
| "join sep [x] = x"
| "join sep (x # y # ys) = x @ sep @ join sep (y # ys)"

text \<open>
  A JavaScript \<open>Map\<close> iterates in insertion order, and \<open>set\<close> on a key that is already
  present replaces the value where the key stands.
\<close>

fun map_set :: "'k \<Rightarrow> 'v \<Rightarrow> ('k \<times> 'v) list \<Rightarrow> ('k \<times> 'v) list" where
  "map_set k v [] = [(k, v)]"
| "map_set k v ((k', v') # m) =
     (if k' = k then (k, v) # m else (k', v') # map_set k v m)"

text \<open>\<open>x || d\<close> for an optional string \<open>x\<close>: \<open>undefined\<close> and the empty string are falsy.\<close>

definition or_else :: "'a list option \<Rightarrow> 'a list \<Rightarrow> 'a list" where
  "or_else x d = (case x of None \<Rightarrow> d | Some s \<Rightarrow> if s = [] then d else s)"

definition starts_with :: "'a list \<Rightarrow> 'a list \<Rightarrow> bool" where
  "starts_with p s \<longleftrightarrow> take (length p) s = p"

text \<open>
  The first group of a pattern \<open>(.+)SEP(.+)$\<close> on a text: the longest non-empty
  prefix that is followed by the separator and at least one more character (the first
  quantifier is greedy, and the POSIX rule for subexpressions picks the same split).
\<close>

fun greedy_split :: "'a list \<Rightarrow> 'a list \<Rightarrow> 'a list option" where
  "greedy_split sep [] = None"
| "greedy_split sep (c # cs) =
     (case greedy_split sep cs of
        Some p \<Rightarrow> Some (c # p)
      | None \<Rightarrow>
          if starts_with sep cs \<and> length sep < length cs then Some [c] else None)"

section \<open>splitDiffByFiles (audit-mcp-server.ts, lines 129-164)\<close>

text \<open>
  \<open>fileRegex = /^diff --git a\/(.+) b\/(.+)$/\<close> has no flags: \<open>^\<close> and \<open>$\<close> are the ends
  of the line it is applied to, and \<open>.\<close> is any code unit but the four line terminators.
  \<open>fileRegex_match\<close> is \<open>match[1]\<close>, or \<open>None\<close> when the line does not match.
\<close>

definition is_line_terminator :: "jschar \<Rightarrow> bool" where
  "is_line_terminator c \<longleftrightarrow> c = 0x0A \<or> c = 0x0D \<or> c = 0x2028 \<or> c = 0x2029"

definition fileRegex_match :: "jsstring \<Rightarrow> jsstring option" where
  "fileRegex_match line =
     (if starts_with (js ''diff --git a/'') line
         \<and> \<not> list_ex is_line_terminator (drop 13 line)
      then greedy_split (js '' b/'') (drop 13 line) else None)"

record split_state =
  fileMap :: "(jsstring \<times> jsstring) list"
  currentFile :: jsstring
  currentContent :: "jsstring list"

text \<open>Lines 144-147 and 159-161: the file read so far is stored under its path.\<close>

definition flush :: "split_state \<Rightarrow> (jsstring \<times> jsstring) list" where
  "flush st =
     (if currentFile st \<noteq> [] \<and> currentContent st \<noteq> []
      then map_set (currentFile st) (join [nl] (currentContent st)) (fileMap st)
      else fileMap st)"

text \<open>The body of \<open>lines.forEach\<close>, lines 140-156.\<close>

definition split_step :: "split_state \<Rightarrow> jsstring \<Rightarrow> split_state" where
  "split_step st line =
     (case fileRegex_match line of
        Some p \<Rightarrow> \<lparr>fileMap = flush st, currentFile = p, currentContent = [line]\<rparr>
      | None \<Rightarrow>
          if currentFile st \<noteq> [] then st\<lparr>currentContent := currentContent st @ [line]\<rparr>
          else st)"

definition split_init :: split_state where
  "split_init = \<lparr>fileMap = [], currentFile = [], currentContent = []\<rparr>"

definition splitDiffByFiles :: "jsstring \<Rightarrow> (jsstring \<times> jsstring) list" where
  "splitDiffByFiles diffContent =
     (if diffContent = [] then []
      else flush (foldl split_step split_init (split_on nl diffContent)))"

text \<open>The paths of the header lines among the lines of a document, in order.\<close>

definition header_paths :: "jsstring list \<Rightarrow> jsstring list" where
  "header_paths ls = List.map_filter fileRegex_match ls"

text \<open>
  What the loop of \<open>splitDiffByFiles\<close> maintains on a document whose first line is a
  header and whose header paths are distinct, after the lines \<open>ls\<close>.
\<close>

definition split_inv :: "jsstring list \<Rightarrow> split_state \<Rightarrow> bool" where
  "split_inv ls st \<longleftrightarrow>
     currentFile st \<noteq> [] \<and> currentContent st \<noteq> []
     \<and> map fst (fileMap st) @ [currentFile st] = header_paths ls
     \<and> join [nl] (map snd (fileMap st) @ [join [nl] (currentContent st)]) = join [nl] ls"

section \<open>The literal texts of audit-mcp-server.ts\<close>

text \<open>The message of lines 196 and 361 (the environment variable is not set).\<close>

definition MSG_OPENAI_KEY_MISSING :: jsstring where
  "MSG_OPENAI_KEY_MISSING =
     [0x74B0, 0x5883, 0x5909, 0x6570] @ js '' OPENAI_API_KEY '' @ [0x304C, 0x8A2D, 0x5B9A,
     0x3055, 0x308C, 0x3066, 0x3044, 0x307E, 0x305B, 0x3093, 0x3002]"

text \<open>The message of line 366.\<close>

definition MSG_DEEPSEEK_KEY_MISSING :: jsstring where
  "MSG_DEEPSEEK_KEY_MISSING =
     [0x74B0, 0x5883, 0x5909, 0x6570] @ js '' DEEPSEEK_API_KEY '' @ [0x304C, 0x8A2D, 0x5B9A,
     0x3055, 0x308C, 0x3066, 0x3044, 0x307E, 0x305B, 0x3093, 0x3002]"

text \<open>The prefix of the message of line 370 (unsupported provider), before the provider name.\<close>

definition MSG_UNSUPPORTED_PROVIDER :: jsstring where
  "MSG_UNSUPPORTED_PROVIDER =
     [0x672A, 0x5BFE, 0x5FDC, 0x306E] @ js ''AI'' @ [0x30D7, 0x30ED, 0x30D0, 0x30A4, 0x30C0,
     0x3067, 0x3059] @ js '': ''"

text \<open>Line 219, between the request and the path.\<close>

definition FILE_REQUEST_INFIX :: jsstring where
  "FILE_REQUEST_INFIX =
     js '' - '' @ [0x30D5, 0x30A1, 0x30A4, 0x30EB] @ js '': ''"

text \<open>Line 220, between the description and the path.\<close>

definition FILE_DESCRIPTION_INFIX :: jsstring where
  "FILE_DESCRIPTION_INFIX =
     js '' - '' @ [0x3053, 0x306E, 0x30EA, 0x30AF, 0x30A8, 0x30B9, 0x30C8, 0x306F, 0x30D5,
     0x30A1, 0x30A4, 0x30EB] @ js '' '' @ [0x0022]"

text \<open>Line 220, after the path.\<close>

definition FILE_DESCRIPTION_SUFFIX :: jsstring where
  "FILE_DESCRIPTION_SUFFIX =
     [0x0022] @ js '' '' @ [0x306E, 0x307F, 0x3092, 0x5BFE, 0x8C61, 0x3068, 0x3057, 0x3066,
     0x3044, 0x307E, 0x3059, 0x3002]"

text \<open>Line 237: the marker that starts the result text of a failed file.\<close>

definition ERROR_MARKER :: jsstring where
  "ERROR_MARKER =
     [0x30A8, 0x30E9, 0x30FC] @ js '': ''"

text \<open>Line 244, between the path and the result of a section.\<close>

definition SECTION_LABEL :: jsstring where
  "SECTION_LABEL =
     js '' '' @ [0x306E, 0x76E3, 0x67FB, 0x7D50, 0x679C] @ js '':'' @ [0x000A, 0x000A]"

text \<open>Lines 248-252: the summary prompt up to the modification description.\<close>

definition SUMMARY_PROMPT_HEAD :: jsstring where
  "SUMMARY_PROMPT_HEAD =
     [0x000A, 0x4EE5, 0x4E0B, 0x306F, 0x3001, 0x30B3, 0x30FC, 0x30C9, 0x5909, 0x66F4, 0x306E,
     0x5404, 0x30D5, 0x30A1, 0x30A4, 0x30EB, 0x306B, 0x5BFE, 0x3059, 0x308B, 0x76E3,
     0x67FB, 0x7D50, 0x679C, 0x3067, 0x3059, 0x3002, 0x3053, 0x308C, 0x3089, 0x306E,
     0x7D50, 0x679C, 0x3092, 0x7DCF, 0x5408, 0x7684, 0x306B, 0x5206, 0x6790, 0x3057,
     0x3001, 0x5909, 0x66F4, 0x5168, 0x4F53, 0x306B, 0x5BFE, 0x3059, 0x308B, 0x7C21,
     0x6F54, 0x306A, 0x30B5, 0x30DE, 0x30EA, 0x30FC, 0x3092, 0x4F5C, 0x6210, 0x3057,
     0x3066, 0x304F, 0x3060, 0x3055, 0x3044, 0x3002, 0x000A, 0x554F, 0x984C, 0x70B9,
     0x304C, 0x3042, 0x308C, 0x3070, 0x7B87, 0x6761, 0x66F8, 0x304D, 0x3067, 0x6307,
     0x6458, 0x3057, 0x3001, 0x5168, 0x4F53, 0x306E, 0x8A55, 0x4FA1, 0x3092, 0x4ED8,
     0x3051, 0x3066, 0x304F, 0x3060, 0x3055, 0x3044, 0x3002, 0x000A, 0x000A, 0x5909,
     0x66F4, 0x306E, 0x6982, 0x8981] @ js '': ''"

text \<open>Lines 252-254: between the description and the list of file results.\<close>

definition SUMMARY_PROMPT_MID :: jsstring where
  "SUMMARY_PROMPT_MID =
     [0x000A, 0x000A, 0x30D5, 0x30A1, 0x30A4, 0x30EB, 0x76E3, 0x67FB, 0x7D50, 0x679C] @
     js '':'' @ [0x000A]"

text \<open>Line 262: the system message of the summary call.\<close>

definition SUMMARY_SYSTEM_PROMPT :: jsstring where
  "SUMMARY_SYSTEM_PROMPT =
     [0x3042, 0x306A, 0x305F, 0x306F, 0x30B3, 0x30FC, 0x30C9, 0x76E3, 0x67FB, 0x306E, 0x5C02,
     0x9580, 0x5BB6, 0x3067, 0x3059, 0x3002, 0x8907, 0x6570, 0x306E, 0x30D5, 0x30A1,
     0x30A4, 0x30EB, 0x76E3, 0x67FB, 0x7D50, 0x679C, 0x3092, 0x7D71, 0x5408, 0x3057,
     0x3066, 0x3001, 0x5168, 0x4F53, 0x306E, 0x8A55, 0x4FA1, 0x3092, 0x63D0, 0x4F9B,
     0x3057, 0x3066, 0x304F, 0x3060, 0x3055, 0x3044, 0x3002]"

text \<open>Line 268: the heading of the summary.\<close>

definition REPORT_HEAD :: jsstring where
  "REPORT_HEAD =
     js ''# '' @ [0x76E3, 0x67FB, 0x30B5, 0x30DE, 0x30EA, 0x30FC, 0x000A, 0x000A]"

text \<open>Line 268: the heading of the detailed results.\<close>

definition REPORT_MID :: jsstring where
  "REPORT_MID =
     [0x000A, 0x000A] @ js ''# '' @ [0x8A73, 0x7D30, 0x306A, 0x76E3, 0x67FB, 0x7D50, 0x679C,
     0x000A, 0x000A]"

text \<open>Lines 279-319: the system message of an audit request.\<close>

definition AUDIT_SYSTEM_PROMPT :: jsstring where
  "AUDIT_SYSTEM_PROMPT =
     [0x3042, 0x306A, 0x305F, 0x306F, 0x30BD, 0x30D5, 0x30C8, 0x30A6, 0x30A7, 0x30A2, 0x76E3,
     0x67FB, 0x30C4, 0x30FC, 0x30EB, 0x3067, 0x3059, 0x3002, 0x4E0E, 0x3048, 0x3089,
     0x308C, 0x305F, 0x300C, 0x30EA, 0x30AF, 0x30A8, 0x30B9, 0x30C8, 0x300D, 0x300C,
     0x5909, 0x66F4, 0x5185, 0x5BB9, 0x300D, 0x300C, 0x5DEE, 0x5206, 0x300D, 0x300C] @
     js ''function_list'' @ [0x300D, 0x300C, 0x5909, 0x66F4, 0x30D5, 0x30A1, 0x30A4,
     0x30EB, 0x4E00, 0x89A7, 0x300D, 0x3092, 0x78BA, 0x8A8D, 0x3057, 0x3001, 0x4E0B,
     0x8A18, 0x306E, 0x89B3, 0x70B9, 0x3067, 0x76E3, 0x67FB, 0x3057, 0x3066, 0x304F,
     0x3060, 0x3055, 0x3044, 0xFF1A, 0x000A, 0x000A, 0x3010, 0x91CD, 0x8981, 0x306A,
     0x76E3, 0x67FB, 0x89B3, 0x70B9, 0x3011, 0x000A] @ js ''1. '' @ [0x6307, 0x793A,
     0x3057, 0x3066, 0x3044, 0x306A, 0x3044, 0x5909, 0x66F4, 0x304C, 0x306A, 0x3044,
     0x304B, 0xFF08, 0x4FEE, 0x6B63, 0x5185, 0x5BB9, 0x306B, 0x8A18, 0x8F09, 0x3055,
     0x308C, 0x3066, 0x3044, 0x306A, 0x3044, 0x5909, 0x66F4, 0x304C, 0x884C, 0x308F,
     0x308C, 0x3066, 0x3044, 0x306A, 0x3044, 0x304B, 0xFF09, 0x000A] @ js ''2. '' @
     [0x65E2, 0x5B58, 0x6A5F, 0x80FD, 0x304C, 0x524A, 0x9664, 0x3055, 0x308C, 0x3066,
     0x3044, 0x306A, 0x3044, 0x304B, 0xFF08, 0x7279, 0x306B] @ js ''function_list.txt'' @
     [0x306B, 0x8A18, 0x8F09, 0x3055, 0x308C, 0x3066, 0x3044, 0x308B, 0x6A5F, 0x80FD,
     0x304C, 0x5931, 0x308F, 0x308C, 0x3066, 0x3044, 0x306A, 0x3044, 0x304B, 0xFF09,
     0x000A] @ js ''3. TODO / FIXME '' @ [0x304C, 0x6B8B, 0x3063, 0x3066, 0x3044, 0x306A,
     0x3044, 0x304B, 0x000A] @ js ''4. '' @ [0x4FEE, 0x6B63, 0x5185, 0x5BB9, 0x3068,
     0x30B3, 0x30FC, 0x30C9, 0x306E, 0x5DEE, 0x5206, 0x306B, 0x6574, 0x5408, 0x6027,
     0x304C, 0x3042, 0x308B, 0x304B, 0xFF08, 0x4FEE, 0x6B63, 0x5185, 0x5BB9, 0x3067,
     0x8FF0, 0x3079, 0x3089, 0x308C, 0x3066, 0x3044, 0x308B, 0x3053, 0x3068, 0x3068,
     0x5B9F, 0x969B, 0x306E, 0x30B3, 0x30FC, 0x30C9, 0x5909, 0x66F4, 0x304C, 0x4E00,
     0x81F4, 0x3057, 0x3066, 0x3044, 0x308B, 0x304B, 0xFF09, 0x000A] @ js ''5. '' @
     [0x4FEE, 0x6B63, 0x5185, 0x5BB9, 0x306B, 0x8A18, 0x8F09, 0x3055, 0x308C, 0x3066,
     0x3044, 0x308B, 0x76EE, 0x7684, 0x304C, 0x9069, 0x5207, 0x306B, 0x5B9F, 0x88C5,
     0x3055, 0x308C, 0x3066, 0x3044, 0x308B, 0x304B, 0x000A, 0x000A, 0x5FC5, 0x305A,
     0x4EE5, 0x4E0B, 0x306E, 0x5F62, 0x5F0F, 0x3067, 0x76E3, 0x67FB, 0x30EC, 0x30DD,
     0x30FC, 0x30C8, 0x3092, 0x4F5C, 0x6210, 0x3057, 0x3066, 0x304F, 0x3060, 0x3055,
     0x3044, 0xFF1A, 0x000A, 0x000A] @ js ''# '' @ [0x30B3, 0x30FC, 0x30C9, 0x76E3, 0x67FB,
     0x30EC, 0x30DD, 0x30FC, 0x30C8, 0x000A, 0x000A] @ js ''## 1. '' @ [0x6307, 0x793A,
     0x3057, 0x3066, 0x3044, 0x306A, 0x3044, 0x5909, 0x66F4, 0x000A] @ js ''['' @ [0x6307,
     0x793A, 0x3057, 0x3066, 0x3044, 0x306A, 0x3044, 0x5909, 0x66F4, 0x306E, 0x6709,
     0x7121, 0x3068, 0x305D, 0x306E, 0x8A73, 0x7D30, 0x3092, 0x8A18, 0x8F09, 0x3002,
     0x306A, 0x3051, 0x308C, 0x3070, 0x300C, 0x6307, 0x793A, 0x3057, 0x3066, 0x3044,
     0x306A, 0x3044, 0x5909, 0x66F4, 0x306F, 0x898B, 0x3064, 0x304B, 0x308A, 0x307E,
     0x305B, 0x3093, 0x3067, 0x3057, 0x305F, 0x3002, 0x300D, 0x3068, 0x8A18, 0x8F09] @
     js '']'' @ [0x000A, 0x000A] @ js ''## 2. '' @ [0x65E2, 0x5B58, 0x6A5F, 0x80FD, 0x306E,
     0x524A, 0x9664, 0x000A] @ js ''['' @ [0x65E2, 0x5B58, 0x6A5F, 0x80FD, 0x304C, 0x524A,
     0x9664, 0x3055, 0x308C, 0x3066, 0x3044, 0x306A, 0x3044, 0x304B, 0x3001, 0x7279,
     0x306B] @ js ''function_list.txt'' @ [0x306B, 0x8A18, 0x8F09, 0x3055, 0x308C, 0x3066,
     0x3044, 0x308B, 0x6A5F, 0x80FD, 0x304C, 0x5931, 0x308F, 0x308C, 0x3066, 0x3044,
     0x306A, 0x3044, 0x304B, 0x78BA, 0x8A8D, 0x3057, 0x305F, 0x7D50, 0x679C, 0x3092,
     0x8A18, 0x8F09] @ js '']'' @ [0x000A, 0x000A] @ js ''## 3. TODO/FIXME '' @ [0x306E,
     0x6B8B, 0x5B58, 0x000A] @ js ''[TODO/FIXME'' @ [0x30B3, 0x30E1, 0x30F3, 0x30C8,
     0x306E, 0x6709, 0x7121, 0x3068, 0x305D, 0x306E, 0x8A73, 0x7D30, 0x3092, 0x8A18,
     0x8F09, 0x3002, 0x306A, 0x3051, 0x308C, 0x3070, 0x300C, 0x6B8B, 0x5B58, 0x3057,
     0x3066, 0x3044, 0x308B] @ js ''TODO/FIXME'' @ [0x30B3, 0x30E1, 0x30F3, 0x30C8, 0x306F,
     0x898B, 0x3064, 0x304B, 0x308A, 0x307E, 0x305B, 0x3093, 0x3067, 0x3057, 0x305F,
     0x3002, 0x300D, 0x3068, 0x8A18, 0x8F09] @ js '']'' @ [0x000A, 0x000A] @
     js ''## 4. '' @ [0x4FEE, 0x6B63, 0x5185, 0x5BB9, 0x3068, 0x306E, 0x6574, 0x5408,
     0x6027, 0x000A] @ js ''['' @ [0x4FEE, 0x6B63, 0x5185, 0x5BB9, 0x306E, 0x8AAC, 0x660E,
     0x3068, 0x5B9F, 0x969B, 0x306E, 0x30B3, 0x30FC, 0x30C9, 0x5909, 0x66F4, 0x304C,
     0x4E00, 0x81F4, 0x3057, 0x3066, 0x3044, 0x308B, 0x304B, 0x8A73, 0x7D30, 0x306B,
     0x5206, 0x6790, 0x3057, 0x305F, 0x7D50, 0x679C, 0x3092, 0x8A18, 0x8F09] @ js '']'' @
     [0x000A, 0x000A] @ js ''## 5. '' @ [0x76EE, 0x7684, 0x306E, 0x5B9F, 0x88C5, 0x72B6,
     0x6CC1, 0x000A] @ js ''['' @ [0x4FEE, 0x6B63, 0x5185, 0x5BB9, 0x306B, 0x8A18, 0x8F09,
     0x3055, 0x308C, 0x3066, 0x3044, 0x308B, 0x76EE, 0x7684, 0x304C, 0x9069, 0x5207,
     0x306B, 0x5B9F, 0x88C5, 0x3055, 0x308C, 0x3066, 0x3044, 0x308B, 0x304B, 0x8A73,
     0x7D30, 0x306B, 0x78BA, 0x8A8D, 0x3057, 0x305F, 0x7D50, 0x679C, 0x3092, 0x8A18,
     0x8F09] @ js '']'' @ [0x000A, 0x000A] @ js ''## 6. '' @ [0x6280, 0x8853, 0x7684,
     0x554F, 0x984C, 0x70B9, 0x000A] @ js ''['' @ [0x30B3, 0x30FC, 0x30C9, 0x54C1, 0x8CEA,
     0x3001, 0x30D1, 0x30D5, 0x30A9, 0x30FC, 0x30DE, 0x30F3, 0x30B9, 0x3001, 0x30BB,
     0x30AD, 0x30E5, 0x30EA, 0x30C6, 0x30A3, 0x306A, 0x3069, 0x306E, 0x6280, 0x8853,
     0x7684, 0x89B3, 0x70B9, 0x3067, 0x306E, 0x554F, 0x984C, 0x70B9, 0x304C, 0x3042,
     0x308C, 0x3070, 0x7B87, 0x6761, 0x66F8, 0x304D, 0x3067, 0x6307, 0x6458] @ js '']'' @
     [0x000A] @ js ''- '' @ [0x554F, 0x984C, 0x70B9] @ js ''1 ['' @ [0x91CD, 0x8981,
     0x5EA6] @ js '': '' @ [0x9AD8] @ js ''/'' @ [0x4E2D] @ js ''/'' @ [0x4F4E] @
     js '']'' @ [0x000A] @ js ''- '' @ [0x554F, 0x984C, 0x70B9] @ js ''2 ['' @ [0x91CD,
     0x8981, 0x5EA6] @ js '': '' @ [0x9AD8] @ js ''/'' @ [0x4E2D] @ js ''/'' @ [0x4F4E] @
     js '']'' @ [0x000A] @ js ''- ...'' @ [0x000A, 0x000A] @ js ''## 7. '' @ [0x7DCF,
     0x5408, 0x8A55, 0x4FA1, 0x000A] @ js ''['' @ [0x76E3, 0x67FB, 0x5168, 0x4F53, 0x306E,
     0x7DCF, 0x5408, 0x8A55, 0x4FA1, 0x3068, 0x3001, 0x6539, 0x5584, 0x3059, 0x3079,
     0x304D, 0x91CD, 0x8981, 0x306A, 0x70B9, 0x3092, 0x7C21, 0x6F54, 0x306B, 0x307E,
     0x3068, 0x3081, 0x308B] @ js '']'' @ [0x000A, 0x000A] @ js ''## function_list.txt'' @
     [0x66F4, 0x65B0, 0x6848, 0x000A] @ js ''['' @ [0x4ECA, 0x56DE, 0x306E, 0x4FEE, 0x6B63,
     0x306B, 0x95A2, 0x9023, 0x3057, 0x3066] @ js ''function_list.txt'' @ [0x306B, 0x8FFD,
     0x52A0, 0x30FB, 0x66F4, 0x65B0, 0x3059, 0x3079, 0x304D, 0x5185, 0x5BB9, 0x3002,
     0x95A2, 0x6570, 0x306E, 0x632F, 0x308B, 0x821E, 0x3044, 0x304C, 0x6B63, 0x78BA,
     0x306B, 0x7406, 0x89E3, 0x3067, 0x304D, 0x308B, 0x3088, 0x3046, 0x306A, 0x8A73,
     0x7D30, 0x306A, 0x8AAC, 0x660E, 0x3068, 0x3001, 0x5909, 0x66F4, 0x3055, 0x308C,
     0x305F, 0x30D7, 0x30ED, 0x30F3, 0x30D7, 0x30C8, 0x304C, 0x3042, 0x308B, 0x5834,
     0x5408, 0x306F, 0x305D, 0x306E, 0x30D7, 0x30ED, 0x30F3, 0x30D7, 0x30C8, 0x3082,
     0x542B, 0x3081, 0x308B] @ js '']'' @ [0x000A, 0x000A, 0x4E0A, 0x8A18, 0x306E, 0x5404,
     0x30BB, 0x30AF, 0x30B7, 0x30E7, 0x30F3, 0x306F, 0x5FC5, 0x305A, 0x542B, 0x3081,
     0x3001, 0x5177, 0x4F53, 0x7684, 0x304B, 0x3064, 0x8A73, 0x7D30, 0x306A, 0x60C5,
     0x5831, 0x3092, 0x63D0, 0x4F9B, 0x3057, 0x3066, 0x304F, 0x3060, 0x3055, 0x3044,
     0x3002, 0x7279, 0x306B, 0x4FEE, 0x6B63, 0x5185, 0x5BB9, 0x3068, 0x306E, 0x6574,
     0x5408, 0x6027, 0x3068, 0x76EE, 0x7684, 0x306E, 0x5B9F, 0x88C5, 0x72B6, 0x6CC1,
     0x306B, 0x3064, 0x3044, 0x3066, 0x306F, 0x8A73, 0x7D30, 0x306B, 0x5206, 0x6790,
     0x3057, 0x3066, 0x304F, 0x3060, 0x3055, 0x3044, 0x3002]"

text \<open>Lines 323-324: before the request.\<close>

definition USER_REQUEST_HEAD :: jsstring where
  "USER_REQUEST_HEAD =
     [0x000A, 0x3010, 0x30EA, 0x30AF, 0x30A8, 0x30B9, 0x30C8, 0x3011] @ js '':'' @ [0x000A]"

text \<open>Lines 325-327: before the modification description.\<close>

definition USER_DESCRIPTION_HEAD :: jsstring where
  "USER_DESCRIPTION_HEAD =
     [0x000A, 0x000A, 0x3010, 0x4FEE, 0x6B63, 0x5185, 0x5BB9, 0x306E, 0x6982, 0x8981, 0x3011] @
     js '':'' @ [0x000A]"

text \<open>Lines 328-330: before the changed files.\<close>

definition USER_FILES_HEAD :: jsstring where
  "USER_FILES_HEAD =
     [0x000A, 0x000A, 0x3010, 0x5909, 0x66F4, 0x3055, 0x308C, 0x305F, 0x30D5, 0x30A1, 0x30A4,
     0x30EB, 0x3011] @ js '':'' @ [0x000A]"

text \<open>Lines 331-334: before the function list.\<close>

definition USER_FUNCTION_LIST_HEAD :: jsstring where
  "USER_FUNCTION_LIST_HEAD =
     [0x000A, 0x000A, 0x3010] @ js ''function_list.txt '' @ [0x306E, 0x5185, 0x5BB9, 0x3011] @
     js '':'' @ [0x000A] @ js ''```'' @ [0x000A]"

text \<open>Lines 335-339: before the code changes.\<close>

definition USER_DIFF_HEAD :: jsstring where
  "USER_DIFF_HEAD =
     [0x000A] @ js ''```'' @ [0x000A, 0x000A, 0x3010, 0x30B3, 0x30FC, 0x30C9, 0x5DEE, 0x5206,
     0x3011] @ js '':'' @ [0x000A] @ js ''```diff'' @ [0x000A]"

text \<open>Lines 340-342: after the code changes.\<close>

definition USER_TAIL :: jsstring where
  "USER_TAIL =
     [0x000A] @ js ''```'' @ [0x000A]"

text \<open>Line 331: shown when there is no changed file.\<close>

definition NO_FILES :: jsstring where
  "NO_FILES =
     [0xFF08, 0x306A, 0x3057, 0xFF09]"

text \<open>Line 408.\<close>

definition OPENAI_ERROR_PREFIX :: jsstring where
  "OPENAI_ERROR_PREFIX =
     js ''OpenAI API '' @ [0x30A8, 0x30E9, 0x30FC] @ js '': ''"

text \<open>Line 466.\<close>

definition DEEPSEEK_ERROR_PREFIX :: jsstring where
  "DEEPSEEK_ERROR_PREFIX =
     js ''DeepSeek API '' @ [0x30A8, 0x30E9, 0x30FC] @ js '': ''"

text \<open>Line 536.\<close>

definition REPORT_MESSAGE :: jsstring where
  "REPORT_MESSAGE =
     [0x76E3, 0x67FB, 0x30EC, 0x30DD, 0x30FC, 0x30C8, 0x3092, 0x751F, 0x6210, 0x3057, 0x307E,
     0x3057, 0x305F, 0x3002]"

text \<open>The text getLatestChanges returns from its catch block.\<close>

definition DIFF_UNAVAILABLE :: jsstring where
  "DIFF_UNAVAILABLE =
     js ''// '' @ [0x5909, 0x66F4, 0x5185, 0x5BB9, 0x3092, 0x53D6, 0x5F97, 0x3067, 0x304D,
     0x307E, 0x305B, 0x3093, 0x3067, 0x3057, 0x305F]"

section \<open>Requests, messages, the environment and the network\<close>

record AuditRequest =
  request :: jsstring
  modification_description :: jsstring
  code_changes :: jsstring
  function_list :: jsstring
  changed_files :: "jsstring list option"

record message =
  role :: jsstring
  content :: jsstring

text \<open>The variables of \<open>process.env\<close> the sources read; \<open>None\<close> is an unset variable.\<close>

record env =
  OPENAI_API_KEY :: "jsstring option"
  DEEPSEEK_API_KEY :: "jsstring option"
  AI_PROVIDER :: "jsstring option"
  DEFAULT_AI_PROVIDER :: "jsstring option"
  OPENAI_MODEL :: "jsstring option"
  DEEPSEEK_MODEL :: "jsstring option"

text \<open>Every \<open>throw\<close> of the sources throws an \<open>Error\<close> with a message.\<close>

datatype js_error = Error jsstring

text \<open>
  The trace of a run is the list of message lists handed to \<open>callCompletion\<close> so far,
  in call order.  The network is an oracle: what \<open>fetch\<close> answers to a request may depend
  on everything that was asked before.  \<open>Fetch_throws\<close> stands for \<open>fetch\<close> or the reading
  of the body throwing, \<open>Response_not_ok\<close> for a response whose \<open>ok\<close> is false, with its
  status and body text, \<open>Response_ok\<close> for a parsed body with its
  \<open>choices[0].message.content\<close>, if it has one.  A request is its address, its
  authorization header and the fields of its body; the constant \<open>temperature: 0.2\<close> of
  the body is left out.  Writing to the console is not modelled.
\<close>

type_synonym trace = "message list list"

record http_request =
  url :: jsstring
  authorization :: jsstring
  model :: jsstring
  messages :: "message list"
  max_tokens :: nat

datatype fetch_result =
  Fetch_throws jsstring
| Response_not_ok nat jsstring
| Response_ok "jsstring option"

type_synonym network = "trace \<Rightarrow> http_request \<Rightarrow> fetch_result"

text \<open>A number in a template literal: its decimal digits.\<close>

function decimal :: "nat \<Rightarrow> jsstring" where
  "decimal n =
     (if n < 10 then [of_nat (48 + n)] else decimal (n div 10) @ [of_nat (48 + n mod 10)])"
  by pat_completeness auto
termination
  by (relation "measure id") auto

declare decimal.simps [simp del]

section \<open>The completion gateway (lines 170-187 and 352-488)\<close>

definition getOpenAIModelName :: "env \<Rightarrow> jsstring" where
  "getOpenAIModelName e = or_else (OPENAI_MODEL e) (js ''gpt-4'')"

definition getDeepSeekModelName :: "env \<Rightarrow> jsstring" where
  "getDeepSeekModelName e = or_else (DEEPSEEK_MODEL e) (js ''deepseek-chat'')"

definition DEFAULT_PROVIDER :: "env \<Rightarrow> jsstring" where
  "DEFAULT_PROVIDER e = or_else (DEFAULT_AI_PROVIDER e) (js ''deepseek'')"

definition getAIProvider :: "env \<Rightarrow> jsstring" where
  "getAIProvider e = or_else (AI_PROVIDER e) (DEFAULT_PROVIDER e)"

definition callOpenAICompletion ::
  "env \<Rightarrow> network \<Rightarrow> trace \<Rightarrow> jsstring \<Rightarrow> message list \<Rightarrow> js_error + jsstring" where
  "callOpenAICompletion e net tr apiKey msgs =
     (case net tr \<lparr>url = js ''https://api.openai.com/v1/chat/completions'',
                   authorization = js ''Bearer '' @ apiKey,
                   model = getOpenAIModelName e, messages = msgs, max_tokens = 1500\<rparr> of
        Fetch_throws m \<Rightarrow> Inl (Error m)
      | Response_not_ok status errText \<Rightarrow>
          Inl (Error (OPENAI_ERROR_PREFIX @ decimal status @ [nl] @ errText))
      | Response_ok c \<Rightarrow> Inr (or_else c []))"

definition callDeepSeekCompletion ::
  "env \<Rightarrow> network \<Rightarrow> trace \<Rightarrow> jsstring \<Rightarrow> message list \<Rightarrow> js_error + jsstring" where
  "callDeepSeekCompletion e net tr apiKey msgs =
     (case net tr \<lparr>url = js ''https://api.deepseek.com/v1/chat/completions'',
                   authorization = js ''Bearer '' @ apiKey,
                   model = getDeepSeekModelName e, messages = msgs, max_tokens = 1500\<rparr> of
        Fetch_throws m \<Rightarrow> Inl (Error m)
      | Response_not_ok status errText \<Rightarrow>
          Inl (Error (DEEPSEEK_ERROR_PREFIX @ decimal status @ [nl] @ errText))
      | Response_ok c \<Rightarrow> Inr (or_else c []))"

text \<open>
  \<open>callCompletion\<close> returns the completion or the error thrown, and the trace with this
  call added.  The network sees the trace before the call.
\<close>

definition callCompletion ::
  "env \<Rightarrow> network \<Rightarrow> trace \<Rightarrow> message list \<Rightarrow> (js_error + jsstring) \<times> trace" where
  "callCompletion e net tr msgs =
     (let provider = getAIProvider e in
      (if provider = js ''openai'' then
         (case OPENAI_API_KEY e of
            None \<Rightarrow> Inl (Error MSG_OPENAI_KEY_MISSING)
          | Some openAiKey \<Rightarrow>
              if openAiKey = [] then Inl (Error MSG_OPENAI_KEY_MISSING)
              else callOpenAICompletion e net tr openAiKey msgs)
       else if provider = js ''deepseek'' then
         (case DEEPSEEK_API_KEY e of
            None \<Rightarrow> Inl (Error MSG_DEEPSEEK_KEY_MISSING)
          | Some deepseekKey \<Rightarrow>
              if deepseekKey = [] then Inl (Error MSG_DEEPSEEK_KEY_MISSING)
              else callDeepSeekCompletion e net tr deepseekKey msgs)
       else Inl (Error (MSG_UNSUPPORTED_PROVIDER @ provider)),
       tr @ [msgs]))"

section \<open>sendSingleAuditRequest (lines 274-347)\<close>

definition changed_files_text :: "AuditRequest \<Rightarrow> jsstring" where
  "changed_files_text inputData =
     (let joined = join [nl] (case changed_files inputData of None \<Rightarrow> [] | Some fs \<Rightarrow> fs)
      in if joined = [] then NO_FILES else joined)"

definition audit_messages :: "AuditRequest \<Rightarrow> message list" where
  "audit_messages inputData =
     [\<lparr>role = js ''system'', content = AUDIT_SYSTEM_PROMPT\<rparr>,
      \<lparr>role = js ''user'',
       content = USER_REQUEST_HEAD @ request inputData
         @ USER_DESCRIPTION_HEAD @ modification_description inputData
         @ USER_FILES_HEAD @ changed_files_text inputData
         @ USER_FUNCTION_LIST_HEAD @ function_list inputData
         @ USER_DIFF_HEAD @ code_changes inputData @ USER_TAIL\<rparr>]"

definition sendSingleAuditRequest ::
  "env \<Rightarrow> network \<Rightarrow> trace \<Rightarrow> jsstring \<Rightarrow> AuditRequest \<Rightarrow> (js_error + jsstring) \<times> trace" where
  "sendSingleAuditRequest e net tr apiKey inputData =
     callCompletion e net tr (audit_messages inputData)"

section \<open>callOpenAIAudit (lines 193-269)\<close>

record file_result =
  item_file :: jsstring
  item_result :: jsstring

text \<open>Lines 218-224: the request for one file.\<close>

definition fileRequest :: "AuditRequest \<Rightarrow> jsstring \<Rightarrow> jsstring \<Rightarrow> AuditRequest" where
  "fileRequest inputData filePath diffContent =
     \<lparr>request = request inputData @ FILE_REQUEST_INFIX @ filePath,
      modification_description =
        modification_description inputData @ FILE_DESCRIPTION_INFIX @ filePath
          @ FILE_DESCRIPTION_SUFFIX,
      code_changes = diffContent,
      function_list = function_list inputData,
      changed_files = Some [filePath]\<rparr>"

text \<open>
  The loop of lines 214-240 over the entries of the map, in their order, with the
  results pushed so far and the trace.  A thrown error is caught and becomes the
  result text of the file.
\<close>

fun audit_files ::
  "env \<Rightarrow> network \<Rightarrow> jsstring \<Rightarrow> AuditRequest \<Rightarrow> (jsstring \<times> jsstring) list
     \<Rightarrow> file_result list \<Rightarrow> trace \<Rightarrow> file_result list \<times> trace" where
  "audit_files e net apiKey inputData [] fileResults tr = (fileResults, tr)"
| "audit_files e net apiKey inputData ((filePath, diffContent) # rest) fileResults tr =
     (case sendSingleAuditRequest e net tr apiKey (fileRequest inputData filePath diffContent) of
        (Inr fileAuditResult, tr') \<Rightarrow>
          audit_files e net apiKey inputData rest
            (fileResults @ [\<lparr>item_file = filePath, item_result = fileAuditResult\<rparr>]) tr'
      | (Inl (Error m), tr') \<Rightarrow>
          audit_files e net apiKey inputData rest
            (fileResults @ [\<lparr>item_file = filePath, item_result = ERROR_MARKER @ m\<rparr>]) tr')"

text \<open>Line 244: the section of one file, and lines 243-245: the sections joined.\<close>

definition file_section :: "file_result \<Rightarrow> jsstring" where
  "file_section item = js ''## '' @ item_file item @ SECTION_LABEL @ item_result item @ [nl]"

definition combinedResults :: "file_result list \<Rightarrow> jsstring" where
  "combinedResults fileResults =
     join ([nl] @ js ''---'' @ [nl, nl]) (map file_section fileResults)"

text \<open>Line 255: one line of the summary prompt; \<open>substring(0, 100)\<close> is \<open>take 100\<close>.\<close>

definition summary_item :: "file_result \<Rightarrow> jsstring" where
  "summary_item item = js ''- '' @ item_file item @ js '': '' @ take 100 (item_result item) @ js ''...''"

definition summaryPrompt :: "AuditRequest \<Rightarrow> file_result list \<Rightarrow> jsstring" where
  "summaryPrompt inputData fileResults =
     SUMMARY_PROMPT_HEAD @ modification_description inputData @ SUMMARY_PROMPT_MID
       @ join [nl] (map summary_item fileResults) @ [nl]"

definition summary_messages :: "AuditRequest \<Rightarrow> file_result list \<Rightarrow> message list" where
  "summary_messages inputData fileResults =
     [\<lparr>role = js ''system'', content = SUMMARY_SYSTEM_PROMPT\<rparr>,
      \<lparr>role = js ''user'', content = summaryPrompt inputData fileResults\<rparr>]"

definition final_report :: "jsstring \<Rightarrow> file_result list \<Rightarrow> jsstring" where
  "final_report summaryResult fileResults =
     REPORT_HEAD @ summaryResult @ REPORT_MID @ combinedResults fileResults"

text \<open>Line 203: whether the whole diff goes out as one request.\<close>

definition single_request :: "AuditRequest \<Rightarrow> bool" where
  "single_request inputData \<longleftrightarrow>
     length (splitDiffByFiles (code_changes inputData)) \<le> 2
     \<or> length (code_changes inputData) < 10000"

text \<open>Lines 207-268, taken when the diff is split.\<close>

definition audit_per_file ::
  "env \<Rightarrow> network \<Rightarrow> trace \<Rightarrow> jsstring \<Rightarrow> AuditRequest \<Rightarrow> (js_error + jsstring) \<times> trace" where
  "audit_per_file e net tr apiKey inputData =
     (case audit_files e net apiKey inputData (splitDiffByFiles (code_changes inputData)) [] tr of
        (fileResults, tr1) \<Rightarrow>
          (case callCompletion e net tr1 (summary_messages inputData fileResults) of
             (Inl err, tr2) \<Rightarrow> (Inl err, tr2)
           | (Inr summaryResult, tr2) \<Rightarrow> (Inr (final_report summaryResult fileResults), tr2)))"

definition callOpenAIAudit ::
  "env \<Rightarrow> network \<Rightarrow> trace \<Rightarrow> AuditRequest \<Rightarrow> (js_error + jsstring) \<times> trace" where
  "callOpenAIAudit e net tr inputData =
     (case OPENAI_API_KEY e of
        None \<Rightarrow> (Inl (Error MSG_OPENAI_KEY_MISSING), tr)
      | Some apiKey \<Rightarrow>
          if apiKey = [] then (Inl (Error MSG_OPENAI_KEY_MISSING), tr)
          else if single_request inputData then sendSingleAuditRequest e net tr apiKey inputData
          else audit_per_file e net tr apiKey inputData)"

section \<open>saveAuditReport and performAudit (lines 493-544)\<close>

text \<open>
  What the run takes from its platform: \<open>__dirname\<close>, \<open>path.join\<close> and the text of
  \<open>new Date().toISOString()\<close> when the report is saved.  The file system is the
  directories and files that exist, and the errors its next \<open>mkdirSync\<close> and
  \<open>writeFileSync\<close> would throw, if any.
\<close>

record platform =
  dirname :: jsstring
  path_join :: "jsstring list \<Rightarrow> jsstring"
  now_iso :: jsstring

record filesystem =
  dirs :: "jsstring list"
  files :: "(jsstring \<times> jsstring) list"
  mkdir_fault :: "jsstring option"
  write_fault :: "jsstring option"

definition dash_colons_dots :: "jsstring \<Rightarrow> jsstring" where
  "dash_colons_dots s = map (\<lambda>c. if c = 0x3A \<or> c = 0x2E then 0x2D else c) s"

definition make_reports_dir :: "jsstring \<Rightarrow> filesystem \<Rightarrow> js_error + filesystem" where
  "make_reports_dir reportsDir fs =
     (if reportsDir \<in> set (dirs fs) then Inr fs
      else (case mkdir_fault fs of
              Some m \<Rightarrow> Inl (Error m)
            | None \<Rightarrow> Inr (fs\<lparr>dirs := dirs fs @ [reportsDir]\<rparr>)))"

definition saveAuditReport ::
  "platform \<Rightarrow> filesystem \<Rightarrow> jsstring \<Rightarrow> (js_error + jsstring) \<times> filesystem" where
  "saveAuditReport plat fs aiReport =
     (let reportsDir = path_join plat [dirname plat, js ''audits'', js ''reports''] in
      case make_reports_dir reportsDir fs of
        Inl err \<Rightarrow> (Inl err, fs)
      | Inr fs1 \<Rightarrow>
          (let timestamp = dash_colons_dots (now_iso plat);
               reportPath =
                 path_join plat [reportsDir, js ''audit-report-'' @ timestamp @ js ''.txt'']
           in case write_fault fs1 of
                Some m \<Rightarrow> (Inl (Error m), fs1)
              | None \<Rightarrow> (Inr reportPath, fs1\<lparr>files := map_set reportPath aiReport (files fs1)\<rparr>)))"

record audit_outcome =
  status :: jsstring
  message_text :: jsstring
  reportPath :: jsstring
  aiReport :: jsstring

definition performAudit ::
  "env \<Rightarrow> network \<Rightarrow> platform \<Rightarrow> trace \<Rightarrow> filesystem \<Rightarrow> AuditRequest
     \<Rightarrow> (js_error + audit_outcome) \<times> trace \<times> filesystem" where
  "performAudit e net plat tr fs params =
     (case callOpenAIAudit e net tr params of
        (Inl err, tr') \<Rightarrow> (Inl err, tr', fs)
      | (Inr report, tr') \<Rightarrow>
          (case saveAuditReport plat fs report of
             (Inl err, fs') \<Rightarrow> (Inl err, tr', fs')
           | (Inr path, fs') \<Rightarrow>
               (Inr \<lparr>status = js ''success'', message_text = REPORT_MESSAGE,
                      reportPath = path, aiReport = report\<rparr>, tr', fs')))"

section \<open>The resolver of the JavaScript callers\<close>

text \<open>
  \<open>getLatestChanges\<close> and \<open>getChangedFiles\<close> stand twice in the sources, with the same
  bodies: in audit-shortcut.js (lines 6-20 and 42-58) and in the script after
  audit-http-server.ts (lines 127-139 and 157-168).  \<open>execSync(cmd).toString()\<close> is an
  oracle that returns the output of the command or throws.
\<close>

type_synonym exec_sync = "jsstring \<Rightarrow> js_error + jsstring"

text \<open>The white space and line terminators \<open>String.prototype.trim\<close> removes.\<close>

definition js_whitespace :: "jschar \<Rightarrow> bool" where
  "js_whitespace c \<longleftrightarrow>
     c \<in> set [0x09, 0x0A, 0x0B, 0x0C, 0x0D, 0x20, 0xA0, 0x1680, 0x2000, 0x2001, 0x2002,
              0x2003, 0x2004, 0x2005, 0x2006, 0x2007, 0x2008, 0x2009, 0x200A, 0x2028,
              0x2029, 0x202F, 0x205F, 0x3000, 0xFEFF]"

definition js_trim :: "jsstring \<Rightarrow> jsstring" where
  "js_trim s = rev (dropWhile js_whitespace (rev (dropWhile js_whitespace s)))"

definition getLatestChanges :: "exec_sync \<Rightarrow> jsstring" where
  "getLatestChanges execSync =
     (case execSync (js ''git diff --cached'') of
        Inl err \<Rightarrow> DIFF_UNAVAILABLE
      | Inr diffCached \<Rightarrow>
          if js_trim diffCached \<noteq> [] then diffCached
          else (case execSync (js ''git diff'') of
                  Inl err \<Rightarrow> DIFF_UNAVAILABLE
                | Inr diff \<Rightarrow> diff))"

text \<open>\<open>Set.prototype.add\<close>: a \<open>Set\<close> keeps the order in which its elements came in.\<close>

definition set_add :: "'a list \<Rightarrow> 'a \<Rightarrow> 'a list" where
  "set_add s x = (if x \<in> set s then s else s @ [x])"

definition getChangedFiles :: "exec_sync \<Rightarrow> jsstring list" where
  "getChangedFiles execSync =
     (case execSync (js ''git diff --cached --name-only'') of
        Inl err \<Rightarrow> []
      | Inr staged \<Rightarrow>
          (case execSync (js ''git diff --name-only'') of
             Inl err \<Rightarrow> []
           | Inr unstaged \<Rightarrow>
               (let stagedFiles = filter (\<lambda>l. l \<noteq> []) (split_on nl staged);
                    unstagedFiles = filter (\<lambda>l. l \<noteq> []) (split_on nl unstaged)
                in foldl set_add [] (stagedFiles @ unstagedFiles))))"

section \<open>pre_audit.sh: texts, lines and the tools of the pipelines\<close>

text \<open>
  The variables of the script hold byte strings.  \<open>$(...)\<close> drops the newlines at the
  end of what it captures; \<open>echo\<close> adds one newline, unless its argument is a string of
  options (a dash and letters among \<open>n\<close>, \<open>e\<close>, \<open>E\<close>), which bash consumes; a here-string
  adds one newline.  The tools read a text as its lines: the pieces between newlines,
  a last piece without newline counting when it is not empty.  Texts are read byte by
  byte, as the tools do in the C locale; the \<open>info\<close> messages are not modelled.
\<close>

definition NL :: char where
  "NL = CHR 0x0A"

definition strip_trailing_newlines :: "string \<Rightarrow> string" where
  "strip_trailing_newlines s = rev (dropWhile (\<lambda>c. c = NL) (rev s))"

definition echo_option :: "string \<Rightarrow> bool" where
  "echo_option x =
     (case x of
        [] \<Rightarrow> False
      | c # cs \<Rightarrow>
          c = CHR ''-'' \<and> cs \<noteq> []
          \<and> list_all (\<lambda>l. l = CHR ''n'' \<or> l = CHR ''e'' \<or> l = CHR ''E'') cs)"

definition echo :: "string \<Rightarrow> string" where
  "echo x =
     (if echo_option x then (if CHR ''n'' \<in> set x then [] else [NL]) else x @ [NL])"

definition here_string :: "string \<Rightarrow> string" where
  "here_string x = x @ [NL]"

definition text_lines :: "string \<Rightarrow> string list" where
  "text_lines t = (let ps = split_on NL t in if last ps = [] then butlast ps else ps)"

definition unlines :: "string list \<Rightarrow> string" where
  "unlines ls = concat (map (\<lambda>l. l @ [NL]) ls)"

text \<open>A loop whose body may leave the modelled fragment.\<close>

fun foldl_option :: "('s \<Rightarrow> 'a \<Rightarrow> 's option) \<Rightarrow> 's \<Rightarrow> 'a list \<Rightarrow> 's option" where
  "foldl_option f s [] = Some s"
| "foldl_option f s (x # xs) =
     (case f s x of None \<Rightarrow> None | Some s' \<Rightarrow> foldl_option f s' xs)"

text \<open>
  \<open>grep -q "^$p$"\<close> on \<open>echo "$combinedFiles"\<close> (lines 283 and 314): \<open>p\<close> is read as a
  basic regular expression.  The model covers the patterns and lines of ASCII bytes in
  which \<open>p\<close> has none of \<open>[ ] * ^ $\<close> and no backslash: there every byte of \<open>p\<close> stands for
  itself, but the dot, which stands for any one byte.  Outside this fragment the result
  is \<open>None\<close>.
\<close>

definition bre_plain :: "string \<Rightarrow> bool" where
  "bre_plain p =
     list_all (\<lambda>c. c \<notin> set [CHR ''['', CHR '']'', CHR ''*'', CHR ''^'', CHR ''$'', CHR 0x5C]
                    \<and> (of_char c :: nat) < 128) p"

definition ascii :: "string \<Rightarrow> bool" where
  "ascii s = list_all (\<lambda>c. (of_char c :: nat) < 128) s"

fun bre_match :: "string \<Rightarrow> string \<Rightarrow> bool" where
  "bre_match [] l = (l = [])"
| "bre_match (p # ps) [] = False"
| "bre_match (p # ps) (c # cs) = ((p = CHR ''.'' \<or> p = c) \<and> bre_match ps cs)"

definition grep_q_whole_line :: "string \<Rightarrow> string \<Rightarrow> bool option" where
  "grep_q_whole_line combinedFiles p =
     (if bre_plain p \<and> list_all ascii (text_lines (echo combinedFiles))
      then Some (list_ex (bre_match p) (text_lines (echo combinedFiles)))
      else None)"

section \<open>pre_audit.sh, section 4: the diff (lines 115-124)\<close>

text \<open>
  A command gives an exit status and what it wrote to standard output.  In
  \<open>$(git diff --cached || true)\<close> the status is dropped and the output captured.  The
  test of line 118 asks for a captured text that is not empty and has a byte that
  \<open>tr -d '[:space:]'\<close> keeps.
\<close>

record cmd_result =
  exit_ok :: bool
  stdout :: string

type_synonym git_oracle = "string \<Rightarrow> cmd_result"

definition capture :: "cmd_result \<Rightarrow> string" where
  "capture r = strip_trailing_newlines (stdout r)"

definition is_space :: "char \<Rightarrow> bool" where
  "is_space c \<longleftrightarrow> c \<in> set [CHR '' '', CHR 0x09, CHR 0x0A, CHR 0x0B, CHR 0x0C, CHR 0x0D]"

definition section4 :: "git_oracle \<Rightarrow> string" where
  "section4 git =
     (let diffCached = capture (git ''diff --cached'') in
      if diffCached \<noteq> []
         \<and> strip_trailing_newlines (filter (\<lambda>c. \<not> is_space c) (echo diffCached)) \<noteq> []
      then diffCached
      else capture (git ''diff''))"

section \<open>pre_audit.sh, section 7: the diff restricted to the files (lines 227-266)\<close>

text \<open>
  The awk program of lines 238-250 splits each line into fields at runs of blanks and
  compares the third field with \<open>b/\<close> and the file, the second with \<open>a/\<close> and the file.
  A field past the last one is empty.  The value of \<open>-v file=...\<close> goes through awk's
  escape processing, which leaves a text without backslash as it is; the model stops
  (\<open>None\<close>) at a file name with a backslash.
\<close>

fun split_where :: "('a \<Rightarrow> bool) \<Rightarrow> 'a list \<Rightarrow> 'a list list" where
  "split_where sep [] = [[]]"
| "split_where sep (c # cs) =
     (if sep c then [] # split_where sep cs
      else (case split_where sep cs of [] \<Rightarrow> [[c]] | l # ls \<Rightarrow> (c # l) # ls))"

definition awk_blank :: "char \<Rightarrow> bool" where
  "awk_blank c \<longleftrightarrow> c = CHR '' '' \<or> c = CHR 0x09 \<or> c = NL"

definition awk_fields :: "string \<Rightarrow> string list" where
  "awk_fields line = filter (\<lambda>f. f \<noteq> []) (split_where awk_blank line)"

definition awk_field :: "nat \<Rightarrow> string \<Rightarrow> string" where
  "awk_field n line =
     (let fs = awk_fields line in if 0 < n \<and> n \<le> length fs then fs ! (n - 1) else [])"

record awk_state =
  in_file :: bool
  file_diff :: string

definition awk_line :: "string \<Rightarrow> awk_state \<Rightarrow> string \<Rightarrow> awk_state" where
  "awk_line file_var st line =
     (let header = starts_with ''diff --git a/'' line;
          st1 = (if header then
                   (if awk_field 3 line = ''b/'' @ file_var
                       \<or> awk_field 2 line = ''a/'' @ file_var
                    then \<lparr>in_file = True, file_diff = file_diff st @ line @ [NL]\<rparr>
                    else st\<lparr>in_file := False\<rparr>)
                 else st)
      in if in_file st1 \<and> \<not> header then st1\<lparr>file_diff := file_diff st1 @ line @ [NL]\<rparr>
         else st1)"

definition awk_assign :: "string \<Rightarrow> string option" where
  "awk_assign v = (if CHR 0x5C \<in> set v then None else Some v)"

text \<open>Lines 238-250: \<open>file_diff=$(echo "$original_diff" | awk -v file="$file" '...')\<close>.\<close>

definition extract_file_diff :: "string \<Rightarrow> string \<Rightarrow> string option" where
  "extract_file_diff original_diff file_name =
     (case awk_assign file_name of
        None \<Rightarrow> None
      | Some file_var \<Rightarrow>
          Some (strip_trailing_newlines
                  (file_diff (foldl (awk_line file_var) \<lparr>in_file = False, file_diff = []\<rparr>
                                (text_lines (echo original_diff)))
                   @ [NL])))"

text \<open>The body of the loop of lines 235-257.\<close>

definition restrict_step :: "string \<Rightarrow> string \<Rightarrow> string \<Rightarrow> string option" where
  "restrict_step original_diff filtered_diff file_name =
     (if file_name = [] then Some filtered_diff
      else (case extract_file_diff original_diff file_name of
              None \<Rightarrow> None
            | Some fd \<Rightarrow> Some (if fd \<noteq> [] then filtered_diff @ fd else filtered_diff)))"

definition section7 :: "string \<Rightarrow> string \<Rightarrow> string option" where
  "section7 combinedFiles codeChanges =
     (if combinedFiles \<noteq> [] then
        (case foldl_option (restrict_step codeChanges) []
                (text_lines (here_string combinedFiles)) of
           None \<Rightarrow> None
         | Some filtered_diff \<Rightarrow>
             Some (if filtered_diff \<noteq> [] then filtered_diff else codeChanges))
      else Some codeChanges)"

section \<open>pre_audit.sh, section 8: the check of the diff (lines 271-334)\<close>

text \<open>
  Line 274: the lines that start with \<open>diff --git\<close>, each replaced by its first path
  when it is \<open>diff --git a/P b/Q\<close> with \<open>P\<close> and \<open>Q\<close> free of spaces, and left as it is
  otherwise.
\<close>

definition sed_header :: "string \<Rightarrow> string" where
  "sed_header line =
     (if starts_with ''diff --git a/'' line then
        (let r = drop 13 line;
             p = takeWhile (\<lambda>c. c \<noteq> CHR '' '') r;
             q = dropWhile (\<lambda>c. c \<noteq> CHR '' '') r
         in if p \<noteq> [] \<and> starts_with '' b/'' q \<and> drop 3 q \<noteq> []
               \<and> CHR '' '' \<notin> set (drop 3 q)
            then p else line)
      else line)"

definition diff_files_of :: "string \<Rightarrow> string" where
  "diff_files_of codeChanges =
     strip_trailing_newlines
       (unlines (map sed_header
          (filter (starts_with ''diff --git'') (text_lines (echo codeChanges)))))"

record detect_state =
  diff_file_count :: nat
  unexpected_files :: string

text \<open>The body of the loop of lines 278-290.\<close>

definition detect_step :: "string \<Rightarrow> detect_state \<Rightarrow> string \<Rightarrow> detect_state option" where
  "detect_step combinedFiles st diff_file =
     (if diff_file = [] then Some st
      else (case grep_q_whole_line combinedFiles diff_file of
              None \<Rightarrow> None
            | Some found \<Rightarrow>
                Some (if found then st\<lparr>diff_file_count := diff_file_count st + 1\<rparr>
                      else \<lparr>diff_file_count = diff_file_count st + 1,
                            unexpected_files =
                              (if unexpected_files st \<noteq> [] then unexpected_files st @ [NL]
                               else [])
                              @ diff_file\<rparr>)))"

text \<open>
  Line 309: \<open>[[ "$line" =~ ^diff\ --git\ a/(.+)\ b/(.+)$ ]]\<close> and \<open>BASH_REMATCH[1]\<close>.
\<close>

definition bash_header_path :: "string \<Rightarrow> string option" where
  "bash_header_path line =
     (if starts_with ''diff --git a/'' line then greedy_split '' b/'' (drop 13 line)
      else None)"

record strip_state =
  filtered :: string
  include_lines :: bool

text \<open>
  The body of the loop of lines 308-326.  The variable \<open>current_file\<close> is written there
  and never read; it is left out.
\<close>

definition strip_step :: "string \<Rightarrow> strip_state \<Rightarrow> string \<Rightarrow> strip_state option" where
  "strip_step combinedFiles st line =
     (case bash_header_path line of
        Some file_path \<Rightarrow>
          (case grep_q_whole_line combinedFiles file_path of
             None \<Rightarrow> None
           | Some found \<Rightarrow>
               Some (if found then \<lparr>filtered = filtered st @ line @ [NL], include_lines = True\<rparr>
                     else st\<lparr>include_lines := False\<rparr>))
      | None \<Rightarrow>
          Some (if include_lines st then st\<lparr>filtered := filtered st @ line @ [NL]\<rparr> else st))"

text \<open>\<open>wc -l\<close> counts the newlines.\<close>

definition wc_l :: "string \<Rightarrow> nat" where
  "wc_l t = length (filter (\<lambda>c. c = NL) t)"

record scoped =
  scoped_diff :: string
  warning_count :: nat
  files_in_diff :: nat

definition section8 :: "string \<Rightarrow> string \<Rightarrow> scoped option" where
  "section8 combinedFiles codeChanges =
     (case foldl_option (detect_step combinedFiles)
             \<lparr>diff_file_count = 0, unexpected_files = []\<rparr>
             (text_lines (here_string (diff_files_of codeChanges))) of
        None \<Rightarrow> None
      | Some found \<Rightarrow>
          if unexpected_files found \<noteq> [] then
            (case foldl_option (strip_step combinedFiles)
                    \<lparr>filtered = [], include_lines = True\<rparr>
                    (text_lines (here_string codeChanges)) of
               None \<Rightarrow> None
             | Some st \<Rightarrow>
                 Some \<lparr>scoped_diff = filtered st,
                       warning_count = wc_l (echo (unexpected_files found)),
                       files_in_diff = diff_file_count found\<rparr>)
          else Some \<lparr>scoped_diff = codeChanges, warning_count = 0,
                     files_in_diff = diff_file_count found\<rparr>)"

text \<open>Sections 7 and 8 in a row: from the file list and the diff to the diff sent on.\<close>

definition diff_scoper :: "string \<Rightarrow> string \<Rightarrow> scoped option" where
  "diff_scoper combinedFiles codeChanges =
     (case section7 combinedFiles codeChanges of
        None \<Rightarrow> None
      | Some restricted \<Rightarrow> section8 combinedFiles restricted)"

text \<open>
  The files of the list (its lines that are not empty, as counted in lines 212-215), and
  the paths of the file headers of a diff.
\<close>

definition scope_paths :: "string \<Rightarrow> string list" where
  "scope_paths combinedFiles =
     filter (\<lambda>l. l \<noteq> []) (text_lines (here_string combinedFiles))"

definition segment_paths :: "string \<Rightarrow> string list" where
  "segment_paths d = List.map_filter bash_header_path (text_lines (here_string d))"


section \<open>Notions used to state the properties\<close>

text \<open>The result text line 229-238 records for a file, from what its call returned or threw.\<close>

definition outcome_text :: "js_error + jsstring \<Rightarrow> jsstring" where
  "outcome_text r = (case r of Inr t \<Rightarrow> t | Inl (Error m) \<Rightarrow> ERROR_MARKER @ m)"

text \<open>The messages of the request for one entry of the map.\<close>

definition segment_messages :: "AuditRequest \<Rightarrow> jsstring \<times> jsstring \<Rightarrow> message list" where
  "segment_messages inputData entry =
     audit_messages (fileRequest inputData (fst entry) (snd entry))"

text \<open>
  What the gateway returns to the call for entry \<open>i\<close>, made after the calls for the
  entries before it.
\<close>

definition segment_call ::
  "env \<Rightarrow> network \<Rightarrow> trace \<Rightarrow> AuditRequest \<Rightarrow> (jsstring \<times> jsstring) list \<Rightarrow> nat
     \<Rightarrow> js_error + jsstring" where
  "segment_call e net tr inputData entries i =
     fst (callCompletion e net (tr @ map (segment_messages inputData) (take i entries))
            (segment_messages inputData (entries ! i)))"

text \<open>The calls one run of \<open>callOpenAIAudit\<close> adds to the trace.\<close>

definition requests_sent :: "env \<Rightarrow> network \<Rightarrow> trace \<Rightarrow> AuditRequest \<Rightarrow> trace" where
  "requests_sent e net tr inputData =
     drop (length tr) (snd (callOpenAIAudit e net tr inputData))"

text \<open>
  On the split path: the results of the loop over the files, and what the gateway
  returns to the summary call that follows it.
\<close>

definition segment_results ::
  "env \<Rightarrow> network \<Rightarrow> trace \<Rightarrow> jsstring \<Rightarrow> AuditRequest \<Rightarrow> file_result list" where
  "segment_results e net tr apiKey inputData =
     fst (audit_files e net apiKey inputData (splitDiffByFiles (code_changes inputData)) [] tr)"

definition summary_call ::
  "env \<Rightarrow> network \<Rightarrow> trace \<Rightarrow> jsstring \<Rightarrow> AuditRequest \<Rightarrow> js_error + jsstring" where
  "summary_call e net tr apiKey inputData =
     fst (callCompletion e net
            (tr @ map (segment_messages inputData) (splitDiffByFiles (code_changes inputData)))
            (summary_messages inputData (segment_results e net tr apiKey inputData)))"

section \<open>Concrete runs\<close>

definition env_openai :: env where
  "env_openai =
     \<lparr>OPENAI_API_KEY = Some (js ''sk-test''), DEEPSEEK_API_KEY = None,
      AI_PROVIDER = Some (js ''openai''), DEFAULT_AI_PROVIDER = None,
      OPENAI_MODEL = None, DEEPSEEK_MODEL = None\<rparr>"

definition net_ok :: network where
  "net_ok tr rq = Response_ok (Some (js ''ok''))"

definition header_a :: jsstring where
  "header_a = js ''diff --git a/a b/a''"

definition header_b :: jsstring where
  "header_b = js ''diff --git a/b b/b''"

definition header_c :: jsstring where
  "header_c = js ''diff --git a/c b/c''"

text \<open>Three files and 15000 code units; two files and 9999 code units.\<close>

definition diff3_15000 :: jsstring where
  "diff3_15000 = header_a @ [nl] @ header_b @ [nl] @ header_c @ [nl] @ replicate 14943 0x2B"

definition diff2_9999 :: jsstring where
  "diff2_9999 = header_a @ [nl] @ header_b @ [nl] @ replicate 9961 0x2B"

definition request_of :: "jsstring \<Rightarrow> AuditRequest" where
  "request_of d =
     \<lparr>request = js ''audit'', modification_description = js ''fix'', code_changes = d,
      function_list = js ''f'', changed_files = None\<rparr>"

text \<open>Two files, each with one added line.\<close>

definition two_file_diff :: jsstring where
  "two_file_diff = header_a @ [nl] @ js ''+1'' @ [nl] @ header_b @ [nl] @ js ''+2''"

definition net_second_fails :: network where
  "net_second_fails tr rq =
     (if length tr = 1 then Response_not_ok 500 (js ''boom'') else Response_ok (Some (js ''ok'')))"

definition net_summary_fails :: network where
  "net_summary_fails tr rq =
     (if length tr = 3 then Fetch_throws (js ''down'') else Response_ok (Some (js ''ok'')))"

definition empty_scope_request :: AuditRequest where
  "empty_scope_request =
     \<lparr>request = js ''audit'', modification_description = js ''fix'', code_changes = [],
      function_list = js ''f'', changed_files = Some []\<rparr>"

definition env_deepseek_only :: env where
  "env_deepseek_only =
     \<lparr>OPENAI_API_KEY = None, DEEPSEEK_API_KEY = Some (js ''sk-ds''),
      AI_PROVIDER = Some (js ''deepseek''), DEFAULT_AI_PROVIDER = None,
      OPENAI_MODEL = None, DEEPSEEK_MODEL = None\<rparr>"

definition platform0 :: platform where
  "platform0 =
     \<lparr>dirname = js ''/srv'', path_join = join (js ''/''),
      now_iso = js ''2025-01-02T03:04:05.678Z''\<rparr>"

definition filesystem0 :: filesystem where
  "filesystem0 = \<lparr>dirs = [], files = [], mkdir_fault = None, write_fault = None\<rparr>"

text \<open>A network whose completions are 250 code units long.\<close>

definition net_long :: network where
  "net_long tr rq = Response_ok (Some (replicate 250 0x78))"

text \<open>A resolver whose every command fails, and a git that writes nothing.\<close>

definition exec_fails :: exec_sync where
  "exec_fails cmd = Inl (Error (js ''fatal: not a git repository''))"

definition git_silent :: git_oracle where
  "git_silent args = \<lparr>exit_ok = False, stdout = []\<rparr>"

text \<open>
  A diff of the files \<open>a.ts\<close> and \<open>axts\<close>, and one of the files \<open>a.ts\<close> and \<open>b.ts\<close>.
\<close>

definition leak_diff :: string where
  "leak_diff =
     ''diff --git a/a.ts b/a.ts'' @ [NL] @ ''+x'' @ [NL]
     @ ''diff --git a/axts b/axts'' @ [NL] @ ''+y''"

definition ab_diff :: string where
  "ab_diff =
     ''diff --git a/a.ts b/a.ts'' @ [NL] @ ''+x'' @ [NL]
     @ ''diff --git a/b.ts b/b.ts'' @ [NL] @ ''+y''"


section \<open>Facts about split, join and the ordered map\<close>

lemma split_on_nonempty: "split_on s xs \<noteq> []"
  by (induction xs) (auto split: list.splits)

lemma split_on_absent: "s \<notin> set xs \<Longrightarrow> split_on s xs = [xs]"
  by (induction xs) auto

lemma split_on_append:
  "s \<notin> set xs \<Longrightarrow> split_on s (xs @ s # ys) = xs # split_on s ys"
  by (induction xs) (auto simp: split_on_absent)

lemma join_Cons: "ys \<noteq> [] \<Longrightarrow> join sep (x # ys) = x @ sep @ join sep ys"
  by (cases ys) simp_all

lemma join_snoc: "xs \<noteq> [] \<Longrightarrow> join sep (xs @ [x]) = join sep xs @ sep @ x"
proof (induction xs)
  case Nil
  then show ?case by simp
next
  case (Cons a xs)
  show ?case
  proof (cases "xs = []")
    case True
    then show ?thesis by simp
  next
    case False
    with Cons show ?thesis by (simp add: join_Cons)
  qed
qed

lemma join_snoc2: "join sep (A @ [u, x]) = join sep (A @ [u]) @ sep @ x"
  using join_snoc [of "A @ [u]" sep x] by simp

lemma join_last_append: "join sep (B @ [u @ v]) = join sep (B @ [u]) @ v"
  by (induction B) (simp_all add: join_Cons)

lemma join_split_on: "join [s] (split_on s xs) = xs"
proof (induction xs)
  case Nil
  show ?case by simp
next
  case (Cons c cs)
  obtain l ls where sp: "split_on s cs = l # ls"
    using split_on_nonempty [of s cs] by (cases "split_on s cs") auto
  show ?case
  proof (cases "c = s")
    case True
    with Cons sp show ?thesis by (simp add: join_Cons)
  next
    case False
    with Cons sp show ?thesis by (cases ls) auto
  qed
qed

lemma map_set_fresh: "k \<notin> fst ` set m \<Longrightarrow> map_set k v m = m @ [(k, v)]"
  by (induction m) auto

section \<open>Facts about splitDiffByFiles\<close>

lemma greedy_split_nonempty: "greedy_split sep r = Some p \<Longrightarrow> p \<noteq> []"
  by (cases r) (auto split: option.splits if_splits)

lemma fileRegex_match_nonempty: "fileRegex_match line = Some p \<Longrightarrow> p \<noteq> []"
  by (auto simp: fileRegex_match_def split: if_splits dest: greedy_split_nonempty)

lemma header_paths_snoc:
  "header_paths (ls @ [x]) =
     header_paths ls @ (case fileRegex_match x of None \<Rightarrow> [] | Some p \<Rightarrow> [p])"
  by (simp add: header_paths_def List.map_filter_def split: option.splits)

lemma split_step_None:
  "fileRegex_match x = None \<Longrightarrow> currentFile st \<noteq> [] \<Longrightarrow>
     split_step st x = st\<lparr>currentContent := currentContent st @ [x]\<rparr>"
  by (simp add: split_step_def)

lemma split_step_Some:
  "fileRegex_match x = Some p \<Longrightarrow>
     split_step st x = \<lparr>fileMap = flush st, currentFile = p, currentContent = [x]\<rparr>"
  by (simp add: split_step_def)

lemma flush_inv:
  assumes "split_inv ls st" "distinct (header_paths ls)"
  shows "flush st = fileMap st @ [(currentFile st, join [nl] (currentContent st))]"
proof -
  from assms have "distinct (map fst (fileMap st) @ [currentFile st])"
    by (simp add: split_inv_def)
  then have "currentFile st \<notin> fst ` set (fileMap st)" by auto
  with assms(1) show ?thesis
    by (simp add: flush_def split_inv_def map_set_fresh)
qed

lemma split_inv_fold:
  assumes "ls \<noteq> []" "fileRegex_match (hd ls) \<noteq> None" "distinct (header_paths ls)"
  shows "split_inv ls (foldl split_step split_init ls)"
  using assms
proof (induction ls rule: rev_nonempty_induct)
  case (single x)
  then obtain p where p: "fileRegex_match x = Some p" by auto
  then show ?case
    using fileRegex_match_nonempty [OF p]
    by (simp add: split_step_Some [OF p] split_inv_def split_init_def flush_def
        header_paths_def List.map_filter_def)
next
  case (snoc x ls)
  let ?st = "foldl split_step split_init ls"
  from snoc have d: "distinct (header_paths ls)"
    by (simp add: header_paths_snoc)
  from snoc have inv: "split_inv ls ?st" by (simp add: header_paths_snoc)
  show ?case
  proof (cases "fileRegex_match x")
    case None
    from inv have cf: "currentFile ?st \<noteq> []" by (simp add: split_inv_def)
    from inv snoc(1) show ?thesis
      by (simp add: split_step_None [OF None cf] split_inv_def header_paths_snoc None
          join_snoc join_last_append)
  next
    case (Some p)
    have fl: "flush ?st = fileMap ?st @ [(currentFile ?st, join [nl] (currentContent ?st))]"
      by (rule flush_inv [OF inv d])
    from Some inv snoc(1) show ?thesis
      using fileRegex_match_nonempty [OF Some]
      by (simp add: split_step_Some [OF Some] split_inv_def header_paths_snoc fl join_snoc
          join_snoc2)
  qed
qed

lemma split_inv_document:
  assumes "fileRegex_match (hd (split_on nl d)) \<noteq> None"
    and "distinct (header_paths (split_on nl d))"
  shows "splitDiffByFiles d =
           fileMap (foldl split_step split_init (split_on nl d))
           @ [(currentFile (foldl split_step split_init (split_on nl d)),
               join [nl] (currentContent (foldl split_step split_init (split_on nl d))))]"
    and "split_inv (split_on nl d) (foldl split_step split_init (split_on nl d))"
proof -
  have ne: "d \<noteq> []"
    using assms(1) by (auto simp: fileRegex_match_def starts_with_def js_def)
  show inv: "split_inv (split_on nl d) (foldl split_step split_init (split_on nl d))"
    by (rule split_inv_fold [OF split_on_nonempty assms])
  from ne show "splitDiffByFiles d =
           fileMap (foldl split_step split_init (split_on nl d))
           @ [(currentFile (foldl split_step split_init (split_on nl d)),
               join [nl] (currentContent (foldl split_step split_init (split_on nl d))))]"
    by (simp add: splitDiffByFiles_def flush_inv [OF inv assms(2)])
qed

lemma split_keys_document_order:
  assumes "fileRegex_match (hd (split_on nl d)) \<noteq> None"
    and "distinct (header_paths (split_on nl d))"
  shows "map fst (splitDiffByFiles d) = header_paths (split_on nl d)"
  using split_inv_document(2) [OF assms]
  by (simp add: split_inv_document(1) [OF assms] split_inv_def)

section \<open>Facts about the gateway and the loop over the files\<close>

lemma callCompletion_trace: "snd (callCompletion e net tr msgs) = tr @ [msgs]"
  by (simp add: callCompletion_def Let_def)

lemma audit_files_step:
  "audit_files e net k inp (entry # rest) frs tr =
     audit_files e net k inp rest
       (frs @ [\<lparr>item_file = fst entry,
                 item_result = outcome_text
                   (fst (callCompletion e net tr (segment_messages inp entry)))\<rparr>])
       (tr @ [segment_messages inp entry])"
proof -
  obtain p d where entry: "entry = (p, d)" by (cases entry)
  obtain r tr' where c: "callCompletion e net tr (audit_messages (fileRequest inp p d)) = (r, tr')"
    by (cases "callCompletion e net tr (audit_messages (fileRequest inp p d))")
  from c have tr': "tr' = tr @ [audit_messages (fileRequest inp p d)]"
    using callCompletion_trace [of e net tr "audit_messages (fileRequest inp p d)"] by simp
  show ?thesis
  proof (cases r)
    case (Inl err)
    then show ?thesis
      using c tr' entry
      by (cases err) (simp add: sendSingleAuditRequest_def segment_messages_def outcome_text_def)
  next
    case (Inr t)
    then show ?thesis
      using c tr' entry
      by (simp add: sendSingleAuditRequest_def segment_messages_def outcome_text_def)
  qed
qed

lemma audit_files_trace:
  "snd (audit_files e net k inp entries frs tr) = tr @ map (segment_messages inp) entries"
proof (induction entries arbitrary: frs tr)
  case Nil
  show ?case by simp
next
  case (Cons entry rest)
  show ?case by (simp only: audit_files_step Cons.IH) simp
qed

lemma audit_files_append:
  "fst (audit_files e net k inp (xs @ ys) frs tr) =
     fst (audit_files e net k inp ys (fst (audit_files e net k inp xs frs tr))
            (tr @ map (segment_messages inp) xs))"
proof (induction xs arbitrary: frs tr)
  case Nil
  show ?case by simp
next
  case (Cons entry rest)
  show ?case by (simp only: audit_files_step Cons.IH append_Cons) simp
qed

lemma audit_files_acc:
  "fst (audit_files e net k inp entries frs tr) =
     frs @ fst (audit_files e net k inp entries [] tr)"
proof (induction entries arbitrary: frs tr)
  case Nil
  show ?case by simp
next
  case (Cons entry rest)
  show ?case
    by (simp only: audit_files_step)
       (simp add: Cons.IH [of "frs @ _"] Cons.IH [of "[_]"])
qed

lemma audit_files_length:
  "length (fst (audit_files e net k inp entries frs tr)) = length frs + length entries"
proof (induction entries arbitrary: frs tr)
  case Nil
  show ?case by simp
next
  case (Cons entry rest)
  show ?case by (simp only: audit_files_step Cons.IH) simp
qed

lemma audit_files_nth:
  assumes "i < length entries"
  shows "fst (audit_files e net k inp entries [] tr) ! i =
           \<lparr>item_file = fst (entries ! i),
            item_result = outcome_text (segment_call e net tr inp entries i)\<rparr>"
proof -
  let ?xs = "take i entries" and ?ys = "drop (Suc i) entries"
  have entries: "entries = ?xs @ (entries ! i) # ?ys"
    using assms by (simp add: id_take_nth_drop)
  let ?done = "fst (audit_files e net k inp ?xs [] tr)"
  have len: "length ?done = i"
    using assms by (simp add: audit_files_length)
  have "fst (audit_files e net k inp entries [] tr) =
          fst (audit_files e net k inp ((entries ! i) # ?ys) ?done
                 (tr @ map (segment_messages inp) ?xs))"
    using audit_files_append [of e net k inp ?xs "(entries ! i) # ?ys" "[]" tr] entries
    by simp
  also have "\<dots> = (?done @ [\<lparr>item_file = fst (entries ! i),
            item_result = outcome_text (segment_call e net tr inp entries i)\<rparr>])
          @ fst (audit_files e net k inp ?ys []
                 (tr @ map (segment_messages inp) ?xs @ [segment_messages inp (entries ! i)]))"
    by (simp only: audit_files_step segment_call_def)
       (simp add: audit_files_acc [of _ _ _ _ _ "_ @ _"])
  finally show ?thesis
    using len by (simp add: nth_append)
qed

lemma audit_files_paths:
  "map item_file (fst (audit_files e net k inp entries [] tr)) = map fst entries"
  by (rule nth_equalityI) (simp_all add: audit_files_length audit_files_nth)


section \<open>The concrete diffs\<close>

lemma fileRegex_match_pad: "fileRegex_match (replicate n 0x2B) = None"
  by (cases n) (simp_all add: fileRegex_match_def starts_with_def js_def)

lemma header_a_match: "fileRegex_match header_a = Some (js ''a'')"
  by (simp add: header_a_def fileRegex_match_def starts_with_def js_def is_line_terminator_def)
lemma header_b_match: "fileRegex_match header_b = Some (js ''b'')"
  by (simp add: header_b_def fileRegex_match_def starts_with_def js_def is_line_terminator_def)
lemma header_c_match: "fileRegex_match header_c = Some (js ''c'')"
  by (simp add: header_c_def fileRegex_match_def starts_with_def js_def is_line_terminator_def)

lemma nl_notin_headers:
  "nl \<notin> set header_a" "nl \<notin> set header_b" "nl \<notin> set header_c"
  "nl \<notin> set (replicate n 0x2B)"
  by (simp_all add: header_a_def header_b_def header_c_def js_def nl_def)

lemma split_on_pad: "split_on nl (replicate n 0x2B) = [replicate n 0x2B]"
  by (rule split_on_absent) (simp add: nl_def)

lemma lines_diff3:
  "split_on nl diff3_15000 = [header_a, header_b, header_c, replicate 14943 0x2B]"
  by (simp add: diff3_15000_def split_on_append split_on_pad nl_notin_headers)

lemma lines_diff2:
  "split_on nl diff2_9999 = [header_a, header_b, replicate 9961 0x2B]"
  by (simp add: diff2_9999_def split_on_append split_on_pad nl_notin_headers)

lemma js_nonempty: "js ''a'' \<noteq> []" "js ''b'' \<noteq> []" "js ''c'' \<noteq> []"
  "js ''a'' \<noteq> js ''b''" "js ''a'' \<noteq> js ''c''" "js ''b'' \<noteq> js ''c''" 
  "js ''b'' \<noteq> js ''a''" "js ''c'' \<noteq> js ''a''" "js ''c'' \<noteq> js ''b''" 
  by (simp_all add: js_def)

lemma diff3_nonempty: "diff3_15000 \<noteq> []" "diff2_9999 \<noteq> []"
  by (simp_all add: diff3_15000_def diff2_9999_def header_a_def js_def)

lemma split_diff3:
  "splitDiffByFiles diff3_15000 =
     [(js ''a'', header_a), (js ''b'', header_b),
      (js ''c'', header_c @ [nl] @ replicate 14943 0x2B)]"
  by (simp add: splitDiffByFiles_def diff3_nonempty lines_diff3 split_step_def split_init_def
      flush_def header_a_match header_b_match header_c_match fileRegex_match_pad js_nonempty)

lemma split_diff2:
  "splitDiffByFiles diff2_9999 =
     [(js ''a'', header_a), (js ''b'', header_b @ [nl] @ replicate 9961 0x2B)]"
  by (simp add: splitDiffByFiles_def diff3_nonempty lines_diff2 split_step_def split_init_def
      flush_def header_a_match header_b_match header_c_match fileRegex_match_pad js_nonempty)

lemma length_diffs: "length diff3_15000 = 15000" "length diff2_9999 = 9999"
  by (simp_all add: diff3_15000_def diff2_9999_def header_a_def header_b_def header_c_def js_def)

lemma callOpenAIAudit_single:
  "OPENAI_API_KEY e = Some k \<Longrightarrow> k \<noteq> [] \<Longrightarrow> single_request inp \<Longrightarrow>
     callOpenAIAudit e net tr inp = callCompletion e net tr (audit_messages inp)"
  by (simp add: callOpenAIAudit_def sendSingleAuditRequest_def)

lemma callOpenAIAudit_split:
  "OPENAI_API_KEY e = Some k \<Longrightarrow> k \<noteq> [] \<Longrightarrow> \<not> single_request inp \<Longrightarrow>
     callOpenAIAudit e net tr inp = audit_per_file e net tr k inp"
  by (simp add: callOpenAIAudit_def)

lemma audit_per_file_trace:
  "snd (audit_per_file e net tr k inp) =
     tr @ map (segment_messages inp) (splitDiffByFiles (code_changes inp))
       @ [summary_messages inp
            (fst (audit_files e net k inp (splitDiffByFiles (code_changes inp)) [] tr))]"
proof -
  let ?entries = "splitDiffByFiles (code_changes inp)"
  obtain frs tr1 where af: "audit_files e net k inp ?entries [] tr = (frs, tr1)"
    by (cases "audit_files e net k inp ?entries [] tr")
  then have tr1: "tr1 = tr @ map (segment_messages inp) ?entries"
    using audit_files_trace [of e net k inp ?entries "[]" tr] by simp
  obtain r tr2 where cc: "callCompletion e net tr1 (summary_messages inp frs) = (r, tr2)"
    by (cases "callCompletion e net tr1 (summary_messages inp frs)")
  then have tr2: "tr2 = tr1 @ [summary_messages inp frs]"
    using callCompletion_trace [of e net tr1 "summary_messages inp frs"] by simp
  show ?thesis
    using af cc tr1 tr2 by (cases r) (simp_all add: audit_per_file_def)
qed

section \<open>Facts about the split path and the concrete runs\<close>

lemma audit_per_file_eq:
  "audit_per_file e net tr k inp =
     (case summary_call e net tr k inp of
        Inl err \<Rightarrow> Inl err
      | Inr s \<Rightarrow> Inr (final_report s (segment_results e net tr k inp)),
      tr @ map (segment_messages inp) (splitDiffByFiles (code_changes inp))
        @ [summary_messages inp (segment_results e net tr k inp)])"
proof -
  let ?entries = "splitDiffByFiles (code_changes inp)"
  obtain frs tr1 where af: "audit_files e net k inp ?entries [] tr = (frs, tr1)"
    by (cases "audit_files e net k inp ?entries [] tr")
  then have tr1: "tr1 = tr @ map (segment_messages inp) ?entries"
    using audit_files_trace [of e net k inp ?entries "[]" tr] by simp
  from af have frs: "segment_results e net tr k inp = frs"
    by (simp add: segment_results_def)
  obtain r tr2 where cc: "callCompletion e net tr1 (summary_messages inp frs) = (r, tr2)"
    by (cases "callCompletion e net tr1 (summary_messages inp frs)")
  then have tr2: "tr2 = tr1 @ [summary_messages inp frs]"
    using callCompletion_trace [of e net tr1 "summary_messages inp frs"] by simp
  from cc tr1 frs have sc: "summary_call e net tr k inp = r"
    by (simp add: summary_call_def)
  show ?thesis
    using af cc tr1 tr2 by (cases r) (simp_all add: audit_per_file_def sc frs)
qed

lemma segment_results_length:
  "length (segment_results e net tr k inp) = length (splitDiffByFiles (code_changes inp))"
  by (simp add: segment_results_def audit_files_length)

lemma segment_results_nth:
  "i < length (splitDiffByFiles (code_changes inp)) \<Longrightarrow>
     segment_results e net tr k inp ! i =
       \<lparr>item_file = fst (splitDiffByFiles (code_changes inp) ! i),
        item_result = outcome_text
          (segment_call e net tr inp (splitDiffByFiles (code_changes inp)) i)\<rparr>"
  by (simp add: segment_results_def audit_files_nth)

lemma list_of_three: "length xs = 3 \<Longrightarrow> xs = [xs ! 0, xs ! 1, xs ! 2]"
  by (auto simp: length_Suc_conv numeral_3_eq_3 eval_nat_numeral)

lemma decimal_500: "decimal 500 = js ''500''"
  by (simp add: decimal.simps js_def)

lemma not_single_diff3: "\<not> single_request (request_of diff3_15000)"
  by (simp add: single_request_def request_of_def split_diff3 length_diffs)

lemma env_openai_key:
  "OPENAI_API_KEY env_openai = Some (js ''sk-test'')" "js ''sk-test'' \<noteq> []"
  by (simp_all add: env_openai_def js_def)

lemma env_openai_call:
  "fst (callCompletion env_openai net tr msgs) =
     callOpenAICompletion env_openai net tr (js ''sk-test'') msgs"
  by (simp add: callCompletion_def getAIProvider_def or_else_def env_openai_def js_def)

lemma code_changes_request_of: "code_changes (request_of d) = d"
  by (simp add: request_of_def)

lemma ok_nonempty: "js ''ok'' \<noteq> []"
  by (simp add: js_def)

lemma segment_calls_second_fails:
  "segment_call env_openai net_second_fails [] inp [x, y, z] 0 = Inr (js ''ok'')"
  "segment_call env_openai net_second_fails [] inp [x, y, z] 1
     = Inl (Error (OPENAI_ERROR_PREFIX @ js ''500'' @ [nl] @ js ''boom''))"
  "segment_call env_openai net_second_fails [] inp [x, y, z] 2 = Inr (js ''ok'')"
  by (simp_all add: segment_call_def env_openai_call callOpenAICompletion_def
      net_second_fails_def or_else_def ok_nonempty decimal_500)

lemma summary_call_second_fails:
  "summary_call env_openai net_second_fails [] k (request_of diff3_15000) = Inr (js ''ok'')"
  by (simp add: summary_call_def env_openai_call callOpenAICompletion_def
      net_second_fails_def or_else_def ok_nonempty code_changes_request_of split_diff3)

lemma segment_results_paths:
  "map item_file (segment_results e net tr k inp) = map fst (splitDiffByFiles (code_changes inp))"
  by (simp add: segment_results_def audit_files_paths)

lemma segment_results_texts:
  "map item_result (segment_results e net tr k inp) =
     map (\<lambda>i. outcome_text (segment_call e net tr inp (splitDiffByFiles (code_changes inp)) i))
       [0..<length (splitDiffByFiles (code_changes inp))]"
  by (rule nth_equalityI) (simp_all add: segment_results_length segment_results_nth)

lemma segment_calls_ok:
  "i < 3 \<Longrightarrow> segment_call env_openai net_ok [] inp [x, y, z] i = Inr (js ''ok'')"
  by (simp add: segment_call_def env_openai_call callOpenAICompletion_def
      net_ok_def or_else_def ok_nonempty)

lemma summary_call_ok:
  "summary_call env_openai net_ok [] k inp = Inr (js ''ok'')"
  by (simp add: summary_call_def env_openai_call callOpenAICompletion_def
      net_ok_def or_else_def ok_nonempty)

lemma entries_diff3:
  "splitDiffByFiles (code_changes (request_of diff3_15000)) =
     [(js ''a'', header_a), (js ''b'', header_b),
      (js ''c'', header_c @ [nl] @ replicate 14943 0x2B)]"
  by (simp add: code_changes_request_of split_diff3)

lemma upt_3: "[0..<3] = [0, 1, 2]"
  by (simp add: upt_rec)

lemma length_join_le:
  "length (join [s] xs) \<le> sum_list (map (\<lambda>x. length x + 1) xs)"
proof (induction xs)
  case Nil
  show ?case by simp
next
  case (Cons x xs)
  then show ?case by (cases xs) simp_all
qed

lemma length_summary_item:
  "length (summary_item item) \<le> length (item_file item) + 107"
  by (simp add: summary_item_def js_def)

lemma sum_list_mono_map:
  "(\<And>x. x \<in> set xs \<Longrightarrow> f x \<le> (g x :: nat)) \<Longrightarrow> sum_list (map f xs) \<le> sum_list (map g xs)"
  by (induction xs) (auto intro: add_mono)

lemma length_summary_items:
  "length (join [nl] (map summary_item frs))
     \<le> sum_list (map (\<lambda>p. length p + 108) (map item_file frs))"
proof -
  have "length (join [nl] (map summary_item frs))
          \<le> sum_list (map (\<lambda>x. length x + 1) (map summary_item frs))"
    by (rule length_join_le)
  also have "\<dots> = sum_list (map (\<lambda>item. length (summary_item item) + 1) frs)"
    by (simp add: comp_def)
  also have "\<dots> \<le> sum_list (map (\<lambda>item. length (item_file item) + 108) frs)"
  proof (rule sum_list_mono_map)
    fix x
    show "length (summary_item x) + 1 \<le> length (item_file x) + 108"
      using length_summary_item [of x] by simp
  qed
  finally show ?thesis
    by (simp add: comp_def)
qed

lemma file_results_eq:
  "map item_file xs = ps \<Longrightarrow> map item_result xs = rs \<Longrightarrow>
     xs = map (\<lambda>(p, r). \<lparr>item_file = p, item_result = r\<rparr>) (zip ps rs)"
  by (induction xs arbitrary: ps rs) auto

lemma segment_calls_long:
  "i < 3 \<Longrightarrow> segment_call env_openai net_long [] inp [x, y, z] i = Inr (replicate 250 0x78)"
  by (simp add: segment_call_def env_openai_call callOpenAICompletion_def
      net_long_def or_else_def)

lemma summary_call_fails:
  "summary_call env_openai net_summary_fails [] k (request_of diff3_15000)
     = Inl (Error (js ''down''))"
  by (simp add: summary_call_def env_openai_call callOpenAICompletion_def
      net_summary_fails_def entries_diff3)

lemma segment_calls_before_summary_fails:
  "i < 3 \<Longrightarrow>
     segment_call env_openai net_summary_fails [] inp [x, y, z] i = Inr (js ''ok'')"
  by (auto simp: segment_call_def env_openai_call callOpenAICompletion_def
      net_summary_fails_def or_else_def ok_nonempty less_Suc_eq numeral_3_eq_3)

section \<open>Section 7 of pre_audit.sh never changes the diff\<close>

text \<open>
  On a line that starts with \<open>diff --git a/\<close> the second field is \<open>--git\<close> and the third
  starts with \<open>a/\<close>, so neither comparison of line 243 can hold: the awk program
  prints an empty text for every file, and the restricted diff is the diff itself.
\<close>

lemma split_where_nonempty: "split_where sep xs \<noteq> []"
  by (induction xs) (auto split: list.splits)

lemma starts_with_append: "starts_with p s \<Longrightarrow> s = p @ drop (length p) s"
  by (metis append_take_drop_id starts_with_def)

lemma awk_fields_header:
  assumes "starts_with ''diff --git a/'' line"
  shows "\<exists>l fs. awk_fields line = ''diff'' # ''--git'' # (''a/'' @ l) # fs"
proof -
  obtain r where line: "line = ''diff --git a/'' @ r"
    using starts_with_append [OF assms] by blast
  obtain l ls where sp: "split_where awk_blank r = l # ls"
    using split_where_nonempty [of awk_blank r] by (cases "split_where awk_blank r") auto
  show ?thesis
    by (simp add: line awk_fields_def awk_blank_def NL_def sp)
qed

lemma awk_line_header:
  assumes "starts_with ''diff --git a/'' line"
  shows "awk_line file_var st line = st\<lparr>in_file := False\<rparr>"
proof -
  obtain l fs where f: "awk_fields line = ''diff'' # ''--git'' # (''a/'' @ l) # fs"
    using awk_fields_header [OF assms] by blast
  have "awk_field 3 line = ''a/'' @ l" "awk_field 2 line = ''--git''"
    by (simp_all add: awk_field_def f)
  with assms show ?thesis
    by (simp add: awk_line_def)
qed

lemma awk_line_idle:
  "\<not> in_file st \<Longrightarrow> awk_line file_var st line = st\<lparr>in_file := False\<rparr>"
  by (cases "starts_with ''diff --git a/'' line") (simp_all add: awk_line_header, simp add: awk_line_def)

lemma awk_never_in_file:
  "\<not> in_file st \<Longrightarrow> foldl (awk_line file_var) st ls = st\<lparr>in_file := False\<rparr>"
proof (induction ls arbitrary: st)
  case Nil
  then show ?case by simp
next
  case (Cons l ls)
  then show ?case by (simp add: awk_line_idle)
qed

lemma extract_file_diff_empty: "extract_file_diff original_diff file_name = Some fd \<Longrightarrow> fd = []"
  by (auto simp: extract_file_diff_def awk_never_in_file strip_trailing_newlines_def
      split: option.splits)

lemma restrict_loop_empty:
  "foldl_option (restrict_step original_diff) [] fs = Some filtered_diff \<Longrightarrow> filtered_diff = []"
proof (induction fs)
  case Nil
  then show ?case by simp
next
  case (Cons f fs)
  then show ?case
    by (auto simp: restrict_step_def split: option.splits if_splits
        dest: extract_file_diff_empty)
qed

lemma section7_keeps_diff: "section7 combinedFiles codeChanges = Some d \<Longrightarrow> d = codeChanges"
  by (auto simp: section7_def split: if_splits option.splits dest: restrict_loop_empty)

section \<open>The dispatch rule\<close>

text \<open>
  Claim C1.  When \<open>OPENAI_API_KEY\<close> is set (the guard of lines 194-197 is passed),
  \<open>callOpenAIAudit\<close> hands the gateway exactly one request, the one for the whole
  \<open>inputData\<close>, if and only if the map of \<open>splitDiffByFiles\<close> has at most 2 entries or
  \<open>code_changes\<close> is shorter than 10000 code units.  Otherwise it hands over one audit
  request per entry of the map, in the order of the map, and after them the one summary
  call.  A diff of 2 entries and 9999 code units goes out as one request; a diff of 3
  entries and 15000 code units goes out as 3 audit requests (before the summary call).
\<close>

theorem dispatch_rule:
  assumes "OPENAI_API_KEY e = Some apiKey" and "apiKey \<noteq> []"
  shows "(requests_sent e net tr inputData = [audit_messages inputData]
            \<longleftrightarrow> length (splitDiffByFiles (code_changes inputData)) \<le> 2
                \<or> length (code_changes inputData) < 10000)
       \<and> (\<not> (length (splitDiffByFiles (code_changes inputData)) \<le> 2
                \<or> length (code_changes inputData) < 10000)
            \<longrightarrow> requests_sent e net tr inputData =
                  map (segment_messages inputData) (splitDiffByFiles (code_changes inputData))
                  @ [summary_messages inputData
                       (fst (audit_files e net apiKey inputData
                               (splitDiffByFiles (code_changes inputData)) [] tr))])
       \<and> (length (splitDiffByFiles (code_changes inputData)) = 2
            \<and> length (code_changes inputData) = 9999
            \<longrightarrow> requests_sent e net tr inputData = [audit_messages inputData])
       \<and> (length (splitDiffByFiles (code_changes inputData)) = 3
            \<and> length (code_changes inputData) = 15000
            \<longrightarrow> length (map (segment_messages inputData)
                          (splitDiffByFiles (code_changes inputData))) = 3
                \<and> butlast (requests_sent e net tr inputData) =
                    map (segment_messages inputData)
                      (splitDiffByFiles (code_changes inputData)))"
proof (cases "single_request inputData")
  case True
  have "requests_sent e net tr inputData = [audit_messages inputData]"
    using callOpenAIAudit_single [OF assms True, of net tr]
    by (simp add: requests_sent_def callCompletion_trace)
  with True show ?thesis
    by (auto simp: single_request_def)
next
  case False
  have sent: "requests_sent e net tr inputData =
      map (segment_messages inputData) (splitDiffByFiles (code_changes inputData))
      @ [summary_messages inputData
           (fst (audit_files e net apiKey inputData
                   (splitDiffByFiles (code_changes inputData)) [] tr))]"
    using callOpenAIAudit_split [OF assms False, of net tr]
    by (simp add: requests_sent_def audit_per_file_trace)
  from False have big: "2 < length (splitDiffByFiles (code_changes inputData))"
    and long: "\<not> length (code_changes inputData) < 10000"
    by (simp_all add: single_request_def)
  from big have "splitDiffByFiles (code_changes inputData) \<noteq> []"
    by auto
  then have "length (requests_sent e net tr inputData) \<noteq> 1"
    by (simp add: sent)
  then have "requests_sent e net tr inputData \<noteq> [audit_messages inputData]"
    by auto
  with sent big long show ?thesis
    by simp
qed

theorem dispatch_rule_witness:
  "OPENAI_API_KEY env_openai = Some (js ''sk-test'') \<and> js ''sk-test'' \<noteq> []
   \<and> length (splitDiffByFiles (code_changes (request_of diff2_9999))) = 2
   \<and> length (code_changes (request_of diff2_9999)) = 9999
   \<and> requests_sent env_openai net_ok [] (request_of diff2_9999) =
       [audit_messages (request_of diff2_9999)]
   \<and> length (splitDiffByFiles (code_changes (request_of diff3_15000))) = 3
   \<and> length (code_changes (request_of diff3_15000)) = 15000
   \<and> butlast (requests_sent env_openai net_ok [] (request_of diff3_15000)) =
       [audit_messages (fileRequest (request_of diff3_15000) (js ''a'') header_a),
        audit_messages (fileRequest (request_of diff3_15000) (js ''b'') header_b),
        audit_messages (fileRequest (request_of diff3_15000) (js ''c'')
          (header_c @ [nl] @ replicate 14943 0x2B))]"
proof -
  have k: "OPENAI_API_KEY env_openai = Some (js ''sk-test'')" "js ''sk-test'' \<noteq> []"
    by (simp_all add: env_openai_def js_def)
  have c2: "code_changes (request_of diff2_9999) = diff2_9999"
    and c3: "code_changes (request_of diff3_15000) = diff3_15000"
    by (simp_all add: request_of_def)
  show ?thesis
    using dispatch_rule [OF k, of net_ok "[]" "request_of diff2_9999"]
      dispatch_rule [OF k, of net_ok "[]" "request_of diff3_15000"]
    by (simp add: k c2 c3 split_diff2 split_diff3 length_diffs segment_messages_def)
qed

section \<open>The diff scoper of pre_audit.sh\<close>

text \<open>
  Claim C2.  The code does not keep the invariant.  Lines 283 and 314 look a path up in
  the file list with \<open>grep -q "^$path$"\<close>, which reads the path as a regular expression:
  the dot of \<open>a.ts\<close> matches the \<open>x\<close> of \<open>axts\<close>.  With the file list \<open>axts\<close> and a diff
  of the files \<open>a.ts\<close> and \<open>axts\<close>, no file is reported, nothing is stripped, and the
  diff that leaves the scoper still has the segment of \<open>a.ts\<close>, which is not in the list.
\<close>

theorem scoper_keeps_unlisted_file:
  "diff_scoper ''axts'' leak_diff =
     Some \<lparr>scoped_diff = leak_diff, warning_count = 0, files_in_diff = 2\<rparr>
   \<and> ''a.ts'' \<in> set (segment_paths leak_diff)
   \<and> ''a.ts'' \<notin> set (scope_paths ''axts'')"
  by code_simp

text \<open>
  The scenario of the claim itself comes out as stated: with the list \<open>a.ts\<close> and a diff
  of \<open>a.ts\<close> and \<open>b.ts\<close>, one file is reported and only the segment of \<open>a.ts\<close> is left.
\<close>

lemma scoper_strips_listed_scenario:
  "diff_scoper ''a.ts'' ab_diff =
     Some \<lparr>scoped_diff = ''diff --git a/a.ts b/a.ts'' @ [NL] @ ''+x'' @ [NL],
           warning_count = 1, files_in_diff = 2\<rparr>
   \<and> segment_paths (''diff --git a/a.ts b/a.ts'' @ [NL] @ ''+x'' @ [NL]) = [''a.ts'']"
  by code_simp

section \<open>A failing file does not stop the run\<close>

text \<open>
  Claim C3.  On the split path, when the call for entry \<open>i\<close> of the map throws an error
  with message \<open>m\<close>, the run goes on: every entry still gets its request and the summary
  call follows, there is one result per entry, the result of entry \<open>i\<close> is the error
  marker followed by \<open>m\<close>, every entry whose call returns a text keeps that text, and
  when the summary call returns, the report holds the sections of all the results.
  The witness is the run of three files whose second call fails: the report has the
  sections of the first and third file and an error-marker section for the second.
\<close>

theorem segment_failure_isolated:
  assumes "OPENAI_API_KEY e = Some apiKey" and "apiKey \<noteq> []"
    and "\<not> single_request inputData"
    and "i < length (splitDiffByFiles (code_changes inputData))"
    and "segment_call e net tr inputData (splitDiffByFiles (code_changes inputData)) i
           = Inl (Error m)"
  shows "requests_sent e net tr inputData =
           map (segment_messages inputData) (splitDiffByFiles (code_changes inputData))
           @ [summary_messages inputData (segment_results e net tr apiKey inputData)]
       \<and> length (segment_results e net tr apiKey inputData)
           = length (splitDiffByFiles (code_changes inputData))
       \<and> segment_results e net tr apiKey inputData ! i =
           \<lparr>item_file = fst (splitDiffByFiles (code_changes inputData) ! i),
            item_result = ERROR_MARKER @ m\<rparr>
       \<and> (\<forall>j t. j < length (splitDiffByFiles (code_changes inputData))
              \<and> segment_call e net tr inputData (splitDiffByFiles (code_changes inputData)) j
                  = Inr t
            \<longrightarrow> segment_results e net tr apiKey inputData ! j =
                  \<lparr>item_file = fst (splitDiffByFiles (code_changes inputData) ! j),
                   item_result = t\<rparr>)
       \<and> (\<forall>s. summary_call e net tr apiKey inputData = Inr s
            \<longrightarrow> fst (callOpenAIAudit e net tr inputData) =
                  Inr (REPORT_HEAD @ s @ REPORT_MID
                       @ join ([nl] @ js ''---'' @ [nl, nl])
                           (map file_section (segment_results e net tr apiKey inputData))))"
proof -
  have run: "callOpenAIAudit e net tr inputData = audit_per_file e net tr apiKey inputData"
    by (rule callOpenAIAudit_split [OF assms(1-3)])
  have "requests_sent e net tr inputData =
           map (segment_messages inputData) (splitDiffByFiles (code_changes inputData))
           @ [summary_messages inputData (segment_results e net tr apiKey inputData)]"
    by (simp add: requests_sent_def run audit_per_file_eq)
  moreover have "segment_results e net tr apiKey inputData ! i =
           \<lparr>item_file = fst (splitDiffByFiles (code_changes inputData) ! i),
            item_result = ERROR_MARKER @ m\<rparr>"
    using assms(4,5) by (simp add: segment_results_nth outcome_text_def)
  moreover have "\<forall>j t. j < length (splitDiffByFiles (code_changes inputData))
              \<and> segment_call e net tr inputData (splitDiffByFiles (code_changes inputData)) j
                  = Inr t
            \<longrightarrow> segment_results e net tr apiKey inputData ! j =
                  \<lparr>item_file = fst (splitDiffByFiles (code_changes inputData) ! j),
                   item_result = t\<rparr>"
    by (simp add: segment_results_nth outcome_text_def)
  moreover have "\<forall>s. summary_call e net tr apiKey inputData = Inr s
            \<longrightarrow> fst (callOpenAIAudit e net tr inputData) =
                  Inr (REPORT_HEAD @ s @ REPORT_MID
                       @ join ([nl] @ js ''---'' @ [nl, nl])
                           (map file_section (segment_results e net tr apiKey inputData)))"
    by (simp add: run audit_per_file_eq final_report_def combinedResults_def)
  ultimately show ?thesis
    by (simp add: segment_results_length)
qed

theorem segment_failure_isolated_witness:
  "OPENAI_API_KEY env_openai = Some (js ''sk-test'') \<and> js ''sk-test'' \<noteq> []
   \<and> \<not> single_request (request_of diff3_15000)
   \<and> 1 < length (splitDiffByFiles (code_changes (request_of diff3_15000)))
   \<and> segment_call env_openai net_second_fails [] (request_of diff3_15000)
        (splitDiffByFiles (code_changes (request_of diff3_15000))) 1
       = Inl (Error (OPENAI_ERROR_PREFIX @ js ''500'' @ [nl] @ js ''boom''))
   \<and> fst (callOpenAIAudit env_openai net_second_fails [] (request_of diff3_15000)) =
       Inr (REPORT_HEAD @ js ''ok'' @ REPORT_MID
            @ js ''## a'' @ SECTION_LABEL @ js ''ok'' @ [nl]
            @ [nl] @ js ''---'' @ [nl, nl]
            @ js ''## b'' @ SECTION_LABEL
                @ ERROR_MARKER @ OPENAI_ERROR_PREFIX @ js ''500'' @ [nl] @ js ''boom'' @ [nl]
            @ [nl] @ js ''---'' @ [nl, nl]
            @ js ''## c'' @ SECTION_LABEL @ js ''ok'' @ [nl])"
proof -
  let ?inp = "request_of diff3_15000"
  let ?entries = "splitDiffByFiles (code_changes ?inp)"
  let ?frs = "segment_results env_openai net_second_fails [] (js ''sk-test'') ?inp"
  have entries: "?entries = [(js ''a'', header_a), (js ''b'', header_b),
      (js ''c'', header_c @ [nl] @ replicate 14943 0x2B)]"
    by (simp add: code_changes_request_of split_diff3)
  have i: "1 < length ?entries"
    by (simp add: entries)
  have fails: "segment_call env_openai net_second_fails [] ?inp ?entries 1
       = Inl (Error (OPENAI_ERROR_PREFIX @ js ''500'' @ [nl] @ js ''boom''))"
    by (simp only: entries segment_calls_second_fails)
  note iso = segment_failure_isolated [OF env_openai_key not_single_diff3 i fails]
  have len: "length ?frs = 3"
    using iso by (simp add: entries)
  have f1: "?frs ! 1 = \<lparr>item_file = js ''b'',
      item_result = ERROR_MARKER @ OPENAI_ERROR_PREFIX @ js ''500'' @ [nl] @ js ''boom''\<rparr>"
    using iso by (simp add: entries)
  have f0: "?frs ! 0 = \<lparr>item_file = js ''a'', item_result = js ''ok''\<rparr>"
    using iso segment_calls_second_fails(1) [of ?inp] by (simp add: entries)
  have f2: "?frs ! 2 = \<lparr>item_file = js ''c'', item_result = js ''ok''\<rparr>"
    using iso segment_calls_second_fails(3) [of ?inp] by (simp add: entries)
  have frs: "?frs =
      [\<lparr>item_file = js ''a'', item_result = js ''ok''\<rparr>,
       \<lparr>item_file = js ''b'',
        item_result = ERROR_MARKER @ OPENAI_ERROR_PREFIX @ js ''500'' @ [nl] @ js ''boom''\<rparr>,
       \<lparr>item_file = js ''c'', item_result = js ''ok''\<rparr>]"
    by (subst list_of_three [OF len]) (simp only: f0 f1 f2)
  have sects: "map file_section ?frs =
     [js ''## a'' @ SECTION_LABEL @ js ''ok'' @ [nl],
      js ''## b'' @ SECTION_LABEL
         @ ERROR_MARKER @ OPENAI_ERROR_PREFIX @ js ''500'' @ [nl] @ js ''boom'' @ [nl],
      js ''## c'' @ SECTION_LABEL @ js ''ok'' @ [nl]]"
    by (simp only: frs) (simp add: file_section_def js_def)
  have "fst (callOpenAIAudit env_openai net_second_fails [] ?inp) =
          Inr (REPORT_HEAD @ js ''ok'' @ REPORT_MID
               @ join ([nl] @ js ''---'' @ [nl, nl]) (map file_section ?frs))"
    using iso summary_call_second_fails by simp
  then show ?thesis
    using env_openai_key not_single_diff3 i fails by (simp add: sects)
qed

section \<open>Provider credentials\<close>

text \<open>
  Claim C4.  The code does not do what the claim says.  With the provider set to
  \<open>deepseek\<close>, \<open>DEEPSEEK_API_KEY\<close> set and \<open>OPENAI_API_KEY\<close> unset, the guard of lines
  194-197 makes \<open>callOpenAIAudit\<close> (and so \<open>performAudit\<close>) throw before any request is
  made, for every request and network, although \<open>callCompletion\<close> itself (lines 364-367)
  would have gone on to the DeepSeek backend with the key that is set.
\<close>

theorem deepseek_blocked_without_openai_key:
  "callOpenAIAudit env_deepseek_only net tr inputData
     = (Inl (Error MSG_OPENAI_KEY_MISSING), tr)
   \<and> fst (performAudit env_deepseek_only net plat tr fs inputData)
     = Inl (Error MSG_OPENAI_KEY_MISSING)
   \<and> fst (callCompletion env_deepseek_only net tr msgs)
     = callDeepSeekCompletion env_deepseek_only net tr (js ''sk-ds'') msgs"
  by (simp add: callOpenAIAudit_def performAudit_def callCompletion_def getAIProvider_def
      or_else_def env_deepseek_only_def js_def)

text \<open>
  The other two parts of the claim hold on the code: with \<open>openai\<close> selected and its key
  set the gateway goes to the OpenAI backend whether or not \<open>DEEPSEEK_API_KEY\<close> is set,
  and a provider that is neither \<open>openai\<close> nor \<open>deepseek\<close> makes every run fail.
\<close>

lemma openai_needs_no_deepseek_key:
  assumes "getAIProvider e = js ''openai''"
    and "OPENAI_API_KEY e = Some apiKey" and "apiKey \<noteq> []"
  shows "fst (callCompletion e net tr msgs) = callOpenAICompletion e net tr apiKey msgs"
  using assms by (simp add: callCompletion_def)

lemma unknown_provider_fatal:
  assumes "getAIProvider e \<noteq> js ''openai''" and "getAIProvider e \<noteq> js ''deepseek''"
  shows "\<exists>err. fst (callOpenAIAudit e net tr inputData) = Inl err"
proof -
  have gw: "fst (callCompletion e net tr' msgs)
      = Inl (Error (MSG_UNSUPPORTED_PROVIDER @ getAIProvider e))" for tr' msgs
    using assms by (simp add: callCompletion_def)
  show ?thesis
  proof (cases "\<exists>apiKey. OPENAI_API_KEY e = Some apiKey \<and> apiKey \<noteq> []")
    case False
    then show ?thesis
      by (auto simp: callOpenAIAudit_def split: option.splits)
  next
    case True
    then obtain apiKey where k: "OPENAI_API_KEY e = Some apiKey" "apiKey \<noteq> []"
      by blast
    show ?thesis
    proof (cases "single_request inputData")
      case True
      then show ?thesis
        by (simp add: callOpenAIAudit_single [OF k] gw)
    next
      case False
      then show ?thesis
        by (simp add: callOpenAIAudit_split [OF k] audit_per_file_eq summary_call_def gw)
    qed
  qed
qed

section \<open>An empty diff\<close>

text \<open>
  Claim C5, as stated, fails: with an empty \<open>code_changes\<close> the map is empty, line 203
  takes the single-request path, and the gateway is called once, for the whole (empty)
  request; the report is what that call returns.
\<close>

theorem empty_diff_counterexample:
  "length (requests_sent env_openai net_ok [] empty_scope_request) = 1
   \<and> requests_sent env_openai net_ok [] empty_scope_request \<noteq> []
   \<and> fst (callOpenAIAudit env_openai net_ok [] empty_scope_request) = Inr (js ''ok'')"
proof -
  have single: "single_request empty_scope_request"
    by (simp add: single_request_def empty_scope_request_def splitDiffByFiles_def)
  have run: "callOpenAIAudit env_openai net_ok [] empty_scope_request =
      callCompletion env_openai net_ok [] (audit_messages empty_scope_request)"
    by (rule callOpenAIAudit_single [OF env_openai_key single])
  show ?thesis
    by (simp add: requests_sent_def run callCompletion_trace env_openai_call
        callOpenAICompletion_def net_ok_def or_else_def ok_nonempty)
qed

text \<open>
  Claim C5, amended.  When \<open>OPENAI_API_KEY\<close> is set and \<open>code_changes\<close> is the empty
  string, \<open>callOpenAIAudit\<close> sends exactly one completion request, the audit request for
  the whole input, and its outcome is the outcome of that one call.
\<close>

theorem empty_diff_one_request:
  assumes "OPENAI_API_KEY e = Some apiKey" and "apiKey \<noteq> []"
    and "code_changes inputData = []"
  shows "requests_sent e net tr inputData = [audit_messages inputData]
       \<and> fst (callOpenAIAudit e net tr inputData)
           = fst (callCompletion e net tr (audit_messages inputData))"
proof -
  from assms(3) have single: "single_request inputData"
    by (simp add: single_request_def splitDiffByFiles_def)
  show ?thesis
    by (simp add: requests_sent_def callOpenAIAudit_single [OF assms(1,2) single]
        callCompletion_trace)
qed

theorem empty_diff_one_request_witness:
  "OPENAI_API_KEY env_openai = Some (js ''sk-test'') \<and> js ''sk-test'' \<noteq> []
   \<and> code_changes empty_scope_request = []
   \<and> requests_sent env_openai net_ok [] empty_scope_request
       = [audit_messages empty_scope_request]
   \<and> fst (callOpenAIAudit env_openai net_ok [] empty_scope_request)
       = fst (callCompletion env_openai net_ok [] (audit_messages empty_scope_request))"
proof -
  have c: "code_changes empty_scope_request = []"
    by (simp add: empty_scope_request_def)
  show ?thesis
    using empty_diff_one_request [OF env_openai_key c, of net_ok "[]"] env_openai_key c
    by simp
qed

section \<open>The layout of the report\<close>

text \<open>
  Claim C6.  On the split path, when the summary call returns \<open>summaryResult\<close>, the
  report is the summary heading, the summary, the heading of the details, and then the
  sections of the files joined with the rule \<open>---\<close>; each section is \<open>## \<close>, the path,
  the label of line 244, the result text of the file and a newline.  The sections stand
  in the order of the entries of the map, and the text of entry \<open>i\<close> is what its own call
  returned (or its error marker): nothing reorders them.  When the diff starts with a
  file header and no path stands in two headers, the order of the map is the order of
  the headers in the diff.
\<close>

theorem report_layout:
  assumes "OPENAI_API_KEY e = Some apiKey" and "apiKey \<noteq> []"
    and "\<not> single_request inputData"
    and "summary_call e net tr apiKey inputData = Inr summaryResult"
  shows "fst (callOpenAIAudit e net tr inputData) =
           Inr (REPORT_HEAD @ summaryResult @ REPORT_MID
                @ join ([nl] @ js ''---'' @ [nl, nl])
                    (map (\<lambda>item. js ''## '' @ item_file item @ SECTION_LABEL
                                   @ item_result item @ [nl])
                       (segment_results e net tr apiKey inputData)))
       \<and> map item_file (segment_results e net tr apiKey inputData)
           = map fst (splitDiffByFiles (code_changes inputData))
       \<and> map item_result (segment_results e net tr apiKey inputData)
           = map (\<lambda>i. outcome_text
                    (segment_call e net tr inputData
                       (splitDiffByFiles (code_changes inputData)) i))
               [0..<length (splitDiffByFiles (code_changes inputData))]
       \<and> (fileRegex_match (hd (split_on nl (code_changes inputData))) \<noteq> None
            \<and> distinct (header_paths (split_on nl (code_changes inputData)))
            \<longrightarrow> map item_file (segment_results e net tr apiKey inputData)
                  = header_paths (split_on nl (code_changes inputData)))"
proof -
  have run: "callOpenAIAudit e net tr inputData = audit_per_file e net tr apiKey inputData"
    by (rule callOpenAIAudit_split [OF assms(1-3)])
  have sect: "file_section = (\<lambda>item. js ''## '' @ item_file item @ SECTION_LABEL
                                   @ item_result item @ [nl])"
    by (rule ext) (simp add: file_section_def)
  have "fst (callOpenAIAudit e net tr inputData) =
           Inr (REPORT_HEAD @ summaryResult @ REPORT_MID
                @ join ([nl] @ js ''---'' @ [nl, nl])
                    (map file_section (segment_results e net tr apiKey inputData)))"
    by (simp add: run audit_per_file_eq assms(4) final_report_def combinedResults_def)
  moreover have "fileRegex_match (hd (split_on nl (code_changes inputData))) \<noteq> None
        \<and> distinct (header_paths (split_on nl (code_changes inputData)))
      \<longrightarrow> map item_file (segment_results e net tr apiKey inputData)
            = header_paths (split_on nl (code_changes inputData))"
    by (simp add: segment_results_paths split_keys_document_order)
  ultimately show ?thesis
    by (simp only: sect segment_results_paths segment_results_texts simp_thms)
qed

theorem report_layout_witness:
  "OPENAI_API_KEY env_openai = Some (js ''sk-test'') \<and> js ''sk-test'' \<noteq> []
   \<and> \<not> single_request (request_of diff3_15000)
   \<and> summary_call env_openai net_ok [] (js ''sk-test'') (request_of diff3_15000)
       = Inr (js ''ok'')
   \<and> fileRegex_match (hd (split_on nl (code_changes (request_of diff3_15000)))) \<noteq> None
   \<and> distinct (header_paths (split_on nl (code_changes (request_of diff3_15000))))
   \<and> header_paths (split_on nl (code_changes (request_of diff3_15000)))
       = [js ''a'', js ''b'', js ''c'']
   \<and> map item_file
        (segment_results env_openai net_ok [] (js ''sk-test'') (request_of diff3_15000))
       = [js ''a'', js ''b'', js ''c'']
   \<and> map item_result
        (segment_results env_openai net_ok [] (js ''sk-test'') (request_of diff3_15000))
       = [js ''ok'', js ''ok'', js ''ok'']
   \<and> fst (callOpenAIAudit env_openai net_ok [] (request_of diff3_15000)) =
       Inr (REPORT_HEAD @ js ''ok'' @ REPORT_MID
            @ join ([nl] @ js ''---'' @ [nl, nl])
                (map (\<lambda>item. js ''## '' @ item_file item @ SECTION_LABEL
                               @ item_result item @ [nl])
                   (segment_results env_openai net_ok [] (js ''sk-test'')
                      (request_of diff3_15000))))"
proof -
  have hp: "header_paths (split_on nl (code_changes (request_of diff3_15000)))
       = [js ''a'', js ''b'', js ''c'']"
    by (simp add: code_changes_request_of lines_diff3 header_paths_def List.map_filter_def
        header_a_match header_b_match header_c_match fileRegex_match_pad)
  have first: "fileRegex_match (hd (split_on nl (code_changes (request_of diff3_15000))))
       \<noteq> None"
    by (simp add: code_changes_request_of lines_diff3 header_a_match)
  show ?thesis
    using report_layout [OF env_openai_key not_single_diff3 summary_call_ok]
      env_openai_key not_single_diff3 summary_call_ok first
    by (simp add: hp entries_diff3 upt_3 segment_calls_ok outcome_text_def js_nonempty)
qed

section \<open>Splitting and joining a diff\<close>

text \<open>
  Claim C7, as stated, fails: the texts of the entries are the lines of each file joined
  with newlines, so the newline between two files is in no entry, and concatenating the
  texts of a diff of two files does not give the diff back.
\<close>

theorem split_concat_counterexample:
  "concat (map snd (splitDiffByFiles two_file_diff)) \<noteq> two_file_diff"
  by (simp add: two_file_diff_def splitDiffByFiles_def split_step_def split_init_def flush_def
      fileRegex_match_def starts_with_def js_def nl_def is_line_terminator_def
      header_a_def header_b_def)

text \<open>
  Claim C7, amended.  When the first line of the document is a file header and no path
  stands in two headers, the texts of the entries of \<open>splitDiffByFiles\<close>, in the order
  of the map and joined with a newline, are the document, and the keys of the map are
  the header paths in document order.
\<close>

theorem split_join_roundtrip:
  assumes "fileRegex_match (hd (split_on nl d)) \<noteq> None"
    and "distinct (header_paths (split_on nl d))"
  shows "join [nl] (map snd (splitDiffByFiles d)) = d
       \<and> map fst (splitDiffByFiles d) = header_paths (split_on nl d)"
proof -
  let ?st = "foldl split_step split_init (split_on nl d)"
  note doc = split_inv_document [OF assms]
  from doc(2) have "join [nl] (map snd (splitDiffByFiles d)) = join [nl] (split_on nl d)"
    by (simp add: doc(1) split_inv_def)
  moreover from doc(2) have "map fst (splitDiffByFiles d) = header_paths (split_on nl d)"
    by (simp add: doc(1) split_inv_def)
  ultimately show ?thesis
    by (simp add: join_split_on)
qed

theorem split_join_roundtrip_witness:
  "fileRegex_match (hd (split_on nl two_file_diff)) \<noteq> None
   \<and> distinct (header_paths (split_on nl two_file_diff))
   \<and> join [nl] (map snd (splitDiffByFiles two_file_diff)) = two_file_diff
   \<and> map fst (splitDiffByFiles two_file_diff) = [js ''a'', js ''b'']"
proof -
  have ls: "split_on nl two_file_diff = [header_a, js ''+1'', header_b, js ''+2'']"
    by (simp add: two_file_diff_def header_a_def header_b_def js_def nl_def)
  have plus: "fileRegex_match (js ''+1'') = None" "fileRegex_match (js ''+2'') = None"
    by (simp_all add: fileRegex_match_def starts_with_def js_def)
  have hp: "header_paths (split_on nl two_file_diff) = [js ''a'', js ''b'']"
    by (simp add: ls header_paths_def List.map_filter_def header_a_match header_b_match plus)
  have h1: "fileRegex_match (hd (split_on nl two_file_diff)) \<noteq> None"
    by (simp add: ls header_a_match)
  have h2: "distinct (header_paths (split_on nl two_file_diff))"
    by (simp add: hp js_nonempty)
  show ?thesis
    using split_join_roundtrip [OF h1 h2] h1 h2 by (simp add: hp)
qed

section \<open>The prompt of the summary call\<close>

text \<open>
  Claim C8.  On the split path the requests for the files are followed by exactly one
  more call, whose user message is the summary prompt: the fixed text, the modification
  description, and one line per file result with its path and the first 100 code units
  of its result text (\<open>substring(0, 100)\<close>; a shorter text is taken whole), whatever
  follows them being left out.  The length of the prompt is bounded by the fixed text,
  the description and the paths, and does not grow with the result texts.
\<close>

theorem summary_prompt_truncates:
  assumes "OPENAI_API_KEY e = Some apiKey" and "apiKey \<noteq> []"
    and "\<not> single_request inputData"
  shows "requests_sent e net tr inputData =
           map (segment_messages inputData) (splitDiffByFiles (code_changes inputData))
           @ [[\<lparr>role = js ''system'', content = SUMMARY_SYSTEM_PROMPT\<rparr>,
               \<lparr>role = js ''user'',
                content = summaryPrompt inputData
                            (segment_results e net tr apiKey inputData)\<rparr>]]
       \<and> summaryPrompt inputData (segment_results e net tr apiKey inputData) =
           SUMMARY_PROMPT_HEAD @ modification_description inputData @ SUMMARY_PROMPT_MID
           @ join [nl]
               (map (\<lambda>item. js ''- '' @ item_file item @ js '': ''
                              @ take 100 (item_result item) @ js ''...'')
                  (segment_results e net tr apiKey inputData))
           @ [nl]
       \<and> length (summaryPrompt inputData (segment_results e net tr apiKey inputData))
           \<le> length SUMMARY_PROMPT_HEAD + length (modification_description inputData)
               + length SUMMARY_PROMPT_MID + 1
               + sum_list (map (\<lambda>p. length p + 108)
                            (map fst (splitDiffByFiles (code_changes inputData))))"
proof -
  have run: "callOpenAIAudit e net tr inputData = audit_per_file e net tr apiKey inputData"
    by (rule callOpenAIAudit_split [OF assms])
  have item: "summary_item = (\<lambda>item. js ''- '' @ item_file item @ js '': ''
                              @ take 100 (item_result item) @ js ''...'')"
    by (rule ext) (simp add: summary_item_def)
  have sent: "requests_sent e net tr inputData =
           map (segment_messages inputData) (splitDiffByFiles (code_changes inputData))
           @ [[\<lparr>role = js ''system'', content = SUMMARY_SYSTEM_PROMPT\<rparr>,
               \<lparr>role = js ''user'',
                content = summaryPrompt inputData
                            (segment_results e net tr apiKey inputData)\<rparr>]]"
    by (simp add: requests_sent_def run audit_per_file_eq summary_messages_def)
  have prompt: "summaryPrompt inputData (segment_results e net tr apiKey inputData) =
           SUMMARY_PROMPT_HEAD @ modification_description inputData @ SUMMARY_PROMPT_MID
           @ join [nl] (map summary_item (segment_results e net tr apiKey inputData))
           @ [nl]"
    by (simp add: summaryPrompt_def)
  have bound: "length (summaryPrompt inputData (segment_results e net tr apiKey inputData))
           \<le> length SUMMARY_PROMPT_HEAD + length (modification_description inputData)
               + length SUMMARY_PROMPT_MID + 1
               + sum_list (map (\<lambda>p. length p + 108)
                            (map fst (splitDiffByFiles (code_changes inputData))))"
    using length_summary_items [of "segment_results e net tr apiKey inputData"]
    by (simp add: prompt segment_results_paths del: map_map)
  from sent prompt bound show ?thesis
    by (simp only: item simp_thms)
qed

theorem summary_prompt_truncates_witness:
  "OPENAI_API_KEY env_openai = Some (js ''sk-test'') \<and> js ''sk-test'' \<noteq> []
   \<and> \<not> single_request (request_of diff3_15000)
   \<and> map item_result
        (segment_results env_openai net_long [] (js ''sk-test'') (request_of diff3_15000))
       = [replicate 250 0x78, replicate 250 0x78, replicate 250 0x78]
   \<and> summaryPrompt (request_of diff3_15000)
        (segment_results env_openai net_long [] (js ''sk-test'') (request_of diff3_15000)) =
       SUMMARY_PROMPT_HEAD @ js ''fix'' @ SUMMARY_PROMPT_MID
       @ js ''- a: '' @ replicate 100 0x78 @ js ''...'' @ [nl]
       @ js ''- b: '' @ replicate 100 0x78 @ js ''...'' @ [nl]
       @ js ''- c: '' @ replicate 100 0x78 @ js ''...'' @ [nl]"
proof -
  let ?frs = "segment_results env_openai net_long [] (js ''sk-test'') (request_of diff3_15000)"
  have texts: "map item_result ?frs = [replicate 250 0x78, replicate 250 0x78, replicate 250 0x78]"
    by (simp add: segment_results_texts entries_diff3 upt_3 segment_calls_long outcome_text_def)
  have paths: "map item_file ?frs = [js ''a'', js ''b'', js ''c'']"
    by (simp add: segment_results_paths entries_diff3)
  have frs: "?frs = [\<lparr>item_file = js ''a'', item_result = replicate 250 0x78\<rparr>,
      \<lparr>item_file = js ''b'', item_result = replicate 250 0x78\<rparr>,
      \<lparr>item_file = js ''c'', item_result = replicate 250 0x78\<rparr>]"
    using file_results_eq [OF paths texts] by simp
  have md: "modification_description (request_of diff3_15000) = js ''fix''"
    by (simp add: request_of_def)
  have cut: "take 100 (replicate 250 (0x78 :: jschar)) = replicate 100 0x78"
    by simp
  note t = summary_prompt_truncates [OF env_openai_key not_single_diff3, of net_long "[]"]
  from t have "summaryPrompt (request_of diff3_15000) ?frs =
       SUMMARY_PROMPT_HEAD @ modification_description (request_of diff3_15000)
       @ SUMMARY_PROMPT_MID
       @ join [nl]
           (map (\<lambda>item. js ''- '' @ item_file item @ js '': ''
                          @ take 100 (item_result item) @ js ''...'') ?frs)
       @ [nl]"
    by (rule conjunct1 [OF conjunct2])
  then have "summaryPrompt (request_of diff3_15000) ?frs =
       SUMMARY_PROMPT_HEAD @ js ''fix'' @ SUMMARY_PROMPT_MID
       @ js ''- a: '' @ replicate 100 0x78 @ js ''...'' @ [nl]
       @ js ''- b: '' @ replicate 100 0x78 @ js ''...'' @ [nl]
       @ js ''- c: '' @ replicate 100 0x78 @ js ''...'' @ [nl]"
    by (simp only: frs md list.map file_result.simps cut join.simps) (simp add: js_def)
  with env_openai_key not_single_diff3 texts show ?thesis
    by (simp only: simp_thms)
qed

section \<open>A failing version-control query\<close>

text \<open>
  Claim C9, as stated, fails: when \<open>execSync\<close> throws, the catch block of
  \<open>getLatestChanges\<close> returns a fixed text, not the empty string.
\<close>

theorem resolver_failure_counterexample:
  "getLatestChanges exec_fails \<noteq> []"
  by (simp add: getLatestChanges_def exec_fails_def DIFF_UNAVAILABLE_def js_def)

text \<open>
  Claim C9, amended.  When the query for the staged diff throws, or the staged diff is
  blank and the query for the unstaged diff throws, \<open>getLatestChanges\<close> returns the
  fixed text \<open>DIFF_UNAVAILABLE\<close>, which is not empty; when one of the two queries for
  the file names throws, \<open>getChangedFiles\<close> returns the empty list; and section 4 of
  pre_audit.sh yields the empty text when neither git command writes anything to
  standard output.  None of them aborts.
\<close>

theorem resolver_failure:
  "(execSync (js ''git diff --cached'') = Inl err
      \<longrightarrow> getLatestChanges execSync = DIFF_UNAVAILABLE)
   \<and> (execSync (js ''git diff --cached'') = Inr staged \<and> js_trim staged = []
        \<and> execSync (js ''git diff'') = Inl err
      \<longrightarrow> getLatestChanges execSync = DIFF_UNAVAILABLE)
   \<and> DIFF_UNAVAILABLE \<noteq> []
   \<and> (execSync (js ''git diff --cached --name-only'') = Inl err
        \<or> execSync (js ''git diff --name-only'') = Inl err
      \<longrightarrow> getChangedFiles execSync = [])
   \<and> (stdout (git ''diff --cached'') = [] \<and> stdout (git ''diff'') = []
      \<longrightarrow> section4 git = [])"
proof -
  have "DIFF_UNAVAILABLE \<noteq> []"
    by (simp add: DIFF_UNAVAILABLE_def js_def)
  moreover have "execSync (js ''git diff --cached --name-only'') = Inl err
        \<or> execSync (js ''git diff --name-only'') = Inl err
      \<longrightarrow> getChangedFiles execSync = []"
    by (auto simp: getChangedFiles_def split: sum.splits)
  moreover have "stdout (git ''diff --cached'') = [] \<and> stdout (git ''diff'') = []
      \<longrightarrow> section4 git = []"
    by (simp add: section4_def capture_def strip_trailing_newlines_def)
  ultimately show ?thesis
    by (simp add: getLatestChanges_def)
qed

theorem resolver_failure_witness:
  "exec_fails (js ''git diff --cached'') = Inl (Error (js ''fatal: not a git repository''))
   \<and> exec_fails (js ''git diff --name-only'') = Inl (Error (js ''fatal: not a git repository''))
   \<and> stdout (git_silent ''diff --cached'') = [] \<and> stdout (git_silent ''diff'') = []
   \<and> getLatestChanges exec_fails = DIFF_UNAVAILABLE
   \<and> getChangedFiles exec_fails = []
   \<and> section4 git_silent = []"
  using resolver_failure [of exec_fails "Error (js ''fatal: not a git repository'')" "[]"
      git_silent]
  by (simp add: exec_fails_def git_silent_def)

section \<open>A failing summary call\<close>

text \<open>
  Claim C10.  On the split path, when the summary call throws, \<open>callOpenAIAudit\<close>
  throws that error (the results of the files are not returned), \<open>performAudit\<close> throws
  it on to its caller, and the file system is as it was before the run: no report is
  written.  This holds whatever the calls for the files returned, so also when each of
  them succeeded, as in the witness.
\<close>

theorem summary_failure_fatal:
  assumes "OPENAI_API_KEY e = Some apiKey" and "apiKey \<noteq> []"
    and "\<not> single_request inputData"
    and "summary_call e net tr apiKey inputData = Inl err"
  shows "fst (callOpenAIAudit e net tr inputData) = Inl err
       \<and> performAudit e net plat tr fs inputData =
           (Inl err,
            tr @ map (segment_messages inputData) (splitDiffByFiles (code_changes inputData))
               @ [summary_messages inputData (segment_results e net tr apiKey inputData)],
            fs)"
proof -
  have run: "callOpenAIAudit e net tr inputData = audit_per_file e net tr apiKey inputData"
    by (rule callOpenAIAudit_split [OF assms(1-3)])
  show ?thesis
    by (simp add: performAudit_def run audit_per_file_eq assms(4))
qed

theorem summary_failure_fatal_witness:
  "OPENAI_API_KEY env_openai = Some (js ''sk-test'') \<and> js ''sk-test'' \<noteq> []
   \<and> \<not> single_request (request_of diff3_15000)
   \<and> map item_result
        (segment_results env_openai net_summary_fails [] (js ''sk-test'')
           (request_of diff3_15000))
       = [js ''ok'', js ''ok'', js ''ok'']
   \<and> summary_call env_openai net_summary_fails [] (js ''sk-test'') (request_of diff3_15000)
       = Inl (Error (js ''down''))
   \<and> fst (performAudit env_openai net_summary_fails platform0 [] filesystem0
              (request_of diff3_15000)) = Inl (Error (js ''down''))
   \<and> snd (snd (performAudit env_openai net_summary_fails platform0 [] filesystem0
                   (request_of diff3_15000))) = filesystem0
   \<and> files filesystem0 = []"
proof -
  have texts: "map item_result
        (segment_results env_openai net_summary_fails [] (js ''sk-test'')
           (request_of diff3_15000))
       = [js ''ok'', js ''ok'', js ''ok'']"
    by (simp add: segment_results_texts entries_diff3 upt_3
        segment_calls_before_summary_fails outcome_text_def)
  show ?thesis
    using summary_failure_fatal [OF env_openai_key not_single_diff3 summary_call_fails,
        of platform0 filesystem0]
      env_openai_key not_single_diff3 summary_call_fails texts
    by (simp add: filesystem0_def)
qed

text \<open>For comparison, a run that succeeds writes its report under the reports directory.\<close>

lemma performAudit_success:
  "fst (performAudit env_openai net_ok platform0 [] filesystem0 (request_of diff2_9999)) =
      Inr \<lparr>status = js ''success'', message_text = REPORT_MESSAGE,
           reportPath = js ''/srv/audits/reports/audit-report-2025-01-02T03-04-05-678Z.txt'',
           aiReport = js ''ok''\<rparr>
   \<and> files (snd (snd (performAudit env_openai net_ok platform0 [] filesystem0
                          (request_of diff2_9999)))) =
       [(js ''/srv/audits/reports/audit-report-2025-01-02T03-04-05-678Z.txt'', js ''ok'')]"
proof -
  have single: "single_request (request_of diff2_9999)"
    by (simp add: single_request_def request_of_def split_diff2)
  have run: "callOpenAIAudit env_openai net_ok [] (request_of diff2_9999) =
      (Inr (js ''ok''), [audit_messages (request_of diff2_9999)])"
    using callCompletion_trace [of env_openai net_ok "[]" "audit_messages (request_of diff2_9999)"]
      env_openai_call [of net_ok "[]" "audit_messages (request_of diff2_9999)"]
    by (simp add: callOpenAIAudit_single [OF env_openai_key single] prod_eq_iff
        callOpenAICompletion_def net_ok_def or_else_def ok_nonempty)
  show ?thesis
    by (simp add: performAudit_def run saveAuditReport_def make_reports_dir_def
        platform0_def filesystem0_def dash_colons_dots_def js_def Let_def)
qed

end
